theory Spec2Isabelle
  imports Complex_Main
begin

section \<open>JavaScript strings\<close>

text \<open>
  A JavaScript string is a sequence of UTF-16 code units. A code unit is modelled by its
  number (below 65536 in the program; nothing below depends on the bound), so that
  \<open>s.length\<close> is \<open>length s\<close> and glyphs outside ASCII (the bullet U+2022) have a value.
  \<open>js\<close> turns an ASCII literal into such a string.
\<close>

type_synonym jschar = nat
type_synonym jsstring = "jschar list"

definition js :: "string \<Rightarrow> jsstring" where
  "js s = map of_char s"

text \<open>The regular-expression class \<open>\d\<close> (and \<open>[0-9]\<close>): the ASCII digits only.\<close>

definition isDigit :: "jschar \<Rightarrow> bool" where
  "isDigit c \<longleftrightarrow> 48 \<le> c \<and> c \<le> 57"

text \<open>
  The characters \<open>String.prototype.trim\<close> strips: ECMAScript's WhiteSpace and
  LineTerminator code points.
\<close>

definition isWhite :: "jschar \<Rightarrow> bool" where
  "isWhite c \<longleftrightarrow>
     c = 9 \<or> c = 10 \<or> c = 11 \<or> c = 12 \<or> c = 13 \<or> c = 32 \<or> c = 160 \<or> c = 5760 \<or>
     (8192 \<le> c \<and> c \<le> 8202) \<or> c = 8232 \<or> c = 8233 \<or> c = 8239 \<or> c = 8287 \<or>
     c = 12288 \<or> c = 65279"

text \<open>Line terminators, which \<open>.\<close> in a regular expression does not match.\<close>

definition isLineTerminator :: "jschar \<Rightarrow> bool" where
  "isLineTerminator c \<longleftrightarrow> c = 10 \<or> c = 13 \<or> c = 8232 \<or> c = 8233"

definition trim :: "jsstring \<Rightarrow> jsstring" where
  "trim s = rev (dropWhile isWhite (rev (dropWhile isWhite s)))"

text \<open>\<open>s.startsWith(p)\<close> and \<open>s.includes(p)\<close>.\<close>

fun startsWith :: "jsstring \<Rightarrow> jsstring \<Rightarrow> bool" where
  "startsWith s [] = True"
| "startsWith [] (p # ps) = False"
| "startsWith (c # cs) (p # ps) = (c = p \<and> startsWith cs ps)"

fun includes_js :: "jsstring \<Rightarrow> jsstring \<Rightarrow> bool" where
  "includes_js [] p = (p = [])"
| "includes_js (c # cs) p = (startsWith (c # cs) p \<or> includes_js cs p)"

text \<open>
  \<open>s.replace(/C/g, r)\<close> for a pattern that is a single character class \<open>C\<close>: every
  character of the class is replaced by \<open>r\<close>, the others are kept, in order.
\<close>

fun replaceClass :: "(jschar \<Rightarrow> bool) \<Rightarrow> jsstring \<Rightarrow> jsstring \<Rightarrow> jsstring" where
  "replaceClass cls r [] = []"
| "replaceClass cls r (c # cs) = (if cls c then r else [c]) @ replaceClass cls r cs"

text \<open>\<open>x || ''\<close> where \<open>x\<close> is a string or \<open>undefined\<close> (\<open>None\<close>).\<close>

definition orEmpty :: "jsstring option \<Rightarrow> jsstring" where
  "orEmpty x = (case x of None \<Rightarrow> [] | Some s \<Rightarrow> s)"

text \<open>Decimal rendering of a non-negative integer, as a template literal prints it.\<close>

fun showNat :: "nat \<Rightarrow> jsstring" where
  "showNat n = (if n < 10 then [48 + n] else showNat (n div 10) @ [48 + n mod 10])"

declare showNat.simps [simp del]

section \<open>Errors\<close>

text \<open>
  A thrown value. Every handler of the program reads \<open>err.message\<close> only, so an error
  is its message, whatever its class (\<open>Error\<close>, \<open>TypeError\<close>, a rejected promise).
\<close>

datatype js_error = JsError (message: jsstring)

definition bindE :: "js_error + 'a \<Rightarrow> ('a \<Rightarrow> js_error + 'b) \<Rightarrow> js_error + 'b" where
  "bindE m f = (case m of Inl e \<Rightarrow> Inl e | Inr x \<Rightarrow> f x)"

section \<open>The extractor (content.js)\<close>

text \<open>
  The page as the extractor sees it. \<open>query\<close> answers \<open>document.querySelector\<close>: an
  exception, \<open>null\<close> (\<open>None\<close>) or the first matching element. An element's \<open>innerText\<close>
  is \<open>undefined\<close> (\<open>None\<close>) on elements that are not HTML elements (SVG, MathML);
  \<open>src\<close> and \<open>content\<close> are \<open>undefined\<close> where the element has no such property.
  \<open>body\<close> is the list of child nodes of \<open>document.body\<close>, \<open>None\<close> when the document has
  no body.
\<close>

record element =
  innerText :: "jsstring option"
  src :: "jsstring option"
  content :: "jsstring option"

datatype dom_node =
    TextNode jsstring
  | ElementNode "dom_node list"
  | OtherNode

record page =
  href :: jsstring
  doc_title :: jsstring
  query :: "jsstring \<Rightarrow> js_error + element option"
  body :: "dom_node list option"

record product =
  title :: jsstring
  price :: jsstring
  image :: jsstring
  url :: jsstring

text \<open>\<open>el?.innerText.trim()\<close>: \<open>undefined\<close> on \<open>null\<close>, a TypeError when \<open>innerText\<close> is
  \<open>undefined\<close>.\<close>

definition innerText_trim :: "element option \<Rightarrow> js_error + jsstring option" where
  "innerText_trim el =
     (case el of
        None \<Rightarrow> Inr None
      | Some e \<Rightarrow>
          (case innerText e of
             None \<Rightarrow> Inl (JsError (js ''Cannot read properties of undefined (reading trim)''))
           | Some s \<Rightarrow> Inr (Some (trim s))))"

text \<open>\<open>el?.innerText?.trim()\<close>.\<close>

definition innerText_opt_trim :: "element option \<Rightarrow> jsstring option" where
  "innerText_opt_trim el =
     (case el of
        None \<Rightarrow> None
      | Some e \<Rightarrow> (case innerText e of None \<Rightarrow> None | Some s \<Rightarrow> Some (trim s)))"

text \<open>\<open>el?.src\<close> and \<open>el?.content\<close>.\<close>

definition src_of :: "element option \<Rightarrow> jsstring option" where
  "src_of el = (case el of None \<Rightarrow> None | Some e \<Rightarrow> src e)"

definition content_of :: "element option \<Rightarrow> jsstring option" where
  "content_of el = (case el of None \<Rightarrow> None | Some e \<Rightarrow> content e)"

text \<open>\<open>price.replace(/[^0-9.]/g, '')\<close>, line 56.\<close>

definition cleanPrice :: "jsstring \<Rightarrow> jsstring" where
  "cleanPrice p = replaceClass (\<lambda>c. \<not> (isDigit c \<or> c = 46)) [] p"

text \<open>
  \<open>findPrice\<close>, lines 75-88. The tree walker with \<open>SHOW_TEXT\<close> yields the text nodes
  below the body in document order.
\<close>

fun textNodes :: "dom_node \<Rightarrow> jsstring list" where
  "textNodes (TextNode s) = [s]"
| "textNodes (ElementNode kids) = concat (map textNodes kids)"
| "textNodes OtherNode = []"

definition isDigitOrComma :: "jschar \<Rightarrow> bool" where
  "isDigitOrComma c \<longleftrightarrow> isDigit c \<or> c = 44"

text \<open>
  The pattern \<open>\$[\d,]+\.?\d{0,2}\<close> tried at the start of a string. Every part after
  \<open>[\d,]+\<close> may match the empty string, so the greedy choices are never undone.
\<close>

definition matchHere :: "jsstring \<Rightarrow> jsstring option" where
  "matchHere s =
     (case s of
        [] \<Rightarrow> None
      | c # r \<Rightarrow>
          if c \<noteq> 36 then None
          else
            let ds = takeWhile isDigitOrComma r;
                r2 = dropWhile isDigitOrComma r
            in if ds = [] then None
               else
                 let dot = (case r2 of [] \<Rightarrow> [] | d # _ \<Rightarrow> if d = 46 then [46] else []);
                     r3 = drop (length dot) r2;
                     frac = takeWhile isDigit (take 2 r3)
                 in Some (36 # ds @ dot @ frac))"

text \<open>\<open>text.match(/\$[\d,]+\.?\d{0,2}/)\<close>: \<open>match[0]\<close> of the leftmost match, or \<open>null\<close>.\<close>

fun priceMatch :: "jsstring \<Rightarrow> jsstring option" where
  "priceMatch [] = None"
| "priceMatch (c # cs) =
     (case matchHere (c # cs) of Some m \<Rightarrow> Some m | None \<Rightarrow> priceMatch cs)"

text \<open>The \<open>while (node = walker.nextNode())\<close> loop over the remaining text nodes.\<close>

fun walk :: "jsstring list \<Rightarrow> jsstring" where
  "walk [] = []"
| "walk (t # ts) = (case priceMatch t of Some m \<Rightarrow> m | None \<Rightarrow> walk ts)"

definition findPrice :: "page \<Rightarrow> js_error + jsstring" where
  "findPrice pg =
     (case body pg of
        None \<Rightarrow> Inl (JsError (js ''createTreeWalker: parameter 1 is not of type Node''))
      | Some kids \<Rightarrow> Inr (walk (concat (map textNodes kids))))"

text \<open>
  \<open>document.title.replace(/ - .*$/, '')\<close>: the leftmost \<open>" - "\<close> after which no line
  terminator follows is cut off together with the rest of the string.
\<close>

fun stripSuffix :: "jsstring \<Rightarrow> jsstring" where
  "stripSuffix [] = []"
| "stripSuffix (c # cs) =
     (if startsWith (c # cs) (js '' - '') \<and> \<not> list_ex isLineTerminator (drop 3 (c # cs))
      then [] else c # stripSuffix cs)"

definition truthyS :: "jsstring option \<Rightarrow> bool" where
  "truthyS x = (case x of None \<Rightarrow> False | Some s \<Rightarrow> s \<noteq> [])"

text \<open>The four strategies of lines 28-53; each yields title, raw price and image.\<close>

definition amazonFields :: "page \<Rightarrow> js_error + (jsstring \<times> jsstring \<times> jsstring)" where
  \<open>amazonFields pg =
     bindE (query pg (js ''#productTitle'')) (\<lambda>e1.
     bindE (innerText_trim e1) (\<lambda>t.
     bindE (query pg (js ''.a-price-whole'')) (\<lambda>e2.
     bindE (query pg (js ''.a-price-fraction'')) (\<lambda>e3.
       let whole = orEmpty (innerText_opt_trim e2);
           fraction = orEmpty (innerText_opt_trim e3);
           price0 =
             (if whole \<noteq> [] \<or> fraction \<noteq> []
              then whole @ (if fraction \<noteq> []
                            then 46 # replaceClass (\<lambda>c. \<not> isDigit c) [] fraction else [])
              else [])
       in bindE (query pg (js ''#landingImage'')) (\<lambda>e4.
            if truthyS (src_of e4) then Inr (orEmpty t, price0, orEmpty (src_of e4))
            else bindE (query pg (js ''.imgTagWrapper img'')) (\<lambda>e5.
                   Inr (orEmpty t, price0, orEmpty (src_of e5))))))))\<close>

definition ebayFields :: "page \<Rightarrow> js_error + (jsstring \<times> jsstring \<times> jsstring)" where
  \<open>ebayFields pg =
     bindE (query pg (js ''h1[data-testid="x-price-primary"] ~ h1'')) (\<lambda>e1.
     bindE (innerText_trim e1) (\<lambda>t1.
     bindE (if truthyS t1 then Inr (orEmpty t1)
            else bindE (query pg (js ''h1'')) (\<lambda>e2.
                 bindE (innerText_trim e2) (\<lambda>t2. Inr (orEmpty t2)))) (\<lambda>t.
     bindE (query pg (js ''[data-testid="x-price-primary"]'')) (\<lambda>e3.
     bindE (innerText_trim e3) (\<lambda>p.
     bindE (query pg (js ''.s-item__image-img'')) (\<lambda>e4.
       Inr (t, orEmpty p, orEmpty (src_of e4))))))))\<close>

definition walmartFields :: "page \<Rightarrow> js_error + (jsstring \<times> jsstring \<times> jsstring)" where
  \<open>walmartFields pg =
     bindE (query pg (js ''h1'')) (\<lambda>e1.
     bindE (innerText_trim e1) (\<lambda>t.
     bindE (query pg (js ''.w_iUH7'')) (\<lambda>e2.
     bindE (innerText_trim e2) (\<lambda>p.
     bindE (query pg (js ''[data-automation-id="product-image"]'')) (\<lambda>e3.
       Inr (orEmpty t, orEmpty p, orEmpty (src_of e3)))))))\<close>

definition genericFields :: "page \<Rightarrow> js_error + (jsstring \<times> jsstring \<times> jsstring)" where
  \<open>genericFields pg =
     bindE (query pg (js ''h1, [itemprop="name"], .product-title'')) (\<lambda>e1.
     bindE (innerText_trim e1) (\<lambda>t.
     bindE (findPrice pg) (\<lambda>p.
     bindE (query pg (js ''meta[property="og:image"]'')) (\<lambda>e2.
       Inr (if truthyS t then orEmpty t else stripSuffix (doc_title pg), p,
            orEmpty (content_of e2))))))\<close>

definition extractFields :: "page \<Rightarrow> js_error + (jsstring \<times> jsstring \<times> jsstring)" where
  "extractFields pg =
     (if includes_js (href pg) (js ''amazon.com'') then amazonFields pg
      else if includes_js (href pg) (js ''ebay.com'') then ebayFields pg
      else if includes_js (href pg) (js ''walmart.com'') then walmartFields pg
      else genericFields pg)"

text \<open>The body of the \<open>try\<close> block, lines 23-65.\<close>

definition extractProduct_try :: "page \<Rightarrow> js_error + product option" where
  "extractProduct_try pg =
     bindE (extractFields pg) (\<lambda>(title0, price0, image0).
       let price1 = cleanPrice price0
       in if title0 = [] \<or> price1 = [] then Inr None
          else Inr (Some \<lparr>title = title0, price = price1, image = image0, url = href pg\<rparr>))"

text \<open>
  \<open>extractProduct\<close>, lines 21-70: the \<open>catch\<close> turns every exception of the body into
  \<open>null\<close>. \<open>Inl\<close> would be an exception reaching the caller.
\<close>

definition extractProduct :: "page \<Rightarrow> js_error + product option" where
  "extractProduct pg =
     (case extractProduct_try pg of Inl err \<Rightarrow> Inr None | Inr r \<Rightarrow> Inr r)"

section \<open>The suggestion service (background worker, content.js lines 94-171)\<close>

text \<open>
  Values read out of a parsed JSON document. \<open>Undefined\<close> is what a missing property
  reads as; it never occurs inside a parsed document.
\<close>

datatype jsval =
    Undefined
  | JNull
  | JBool bool
  | JNum rat
  | JStr jsstring
  | JArr "jsval list"
  | JObj "(jsstring \<times> jsval) list"

definition nullish :: "jsval \<Rightarrow> bool" where
  "nullish v \<longleftrightarrow> v = Undefined \<or> v = JNull"

definition truthy :: "jsval \<Rightarrow> bool" where
  "truthy v =
     (case v of
        Undefined \<Rightarrow> False
      | JNull \<Rightarrow> False
      | JBool b \<Rightarrow> b
      | JNum n \<Rightarrow> n \<noteq> 0
      | JStr s \<Rightarrow> s \<noteq> []
      | JArr xs \<Rightarrow> True
      | JObj kvs \<Rightarrow> True)"

text \<open>
  \<open>v.k\<close> on a value that is neither \<open>undefined\<close> nor \<open>null\<close>, for the keys the program
  reads (\<open>candidates\<close>, \<open>content\<close>, \<open>parts\<close>, \<open>text\<close>): only an object can have them.
\<close>

definition getProp :: "jsval \<Rightarrow> jsstring \<Rightarrow> jsval" where
  "getProp v k =
     (case v of
        JObj kvs \<Rightarrow> (case map_of kvs k of Some x \<Rightarrow> x | None \<Rightarrow> Undefined)
      | _ \<Rightarrow> Undefined)"

text \<open>\<open>v[0]\<close> on a value that is neither \<open>undefined\<close> nor \<open>null\<close>.\<close>

definition getIndex0 :: "jsval \<Rightarrow> jsval" where
  "getIndex0 v =
     (case v of
        JArr xs \<Rightarrow> (case xs of [] \<Rightarrow> Undefined | x # _ \<Rightarrow> x)
      | JStr s \<Rightarrow> (case s of [] \<Rightarrow> Undefined | c # _ \<Rightarrow> JStr [c])
      | JObj kvs \<Rightarrow> (case map_of kvs (js ''0'') of Some x \<Rightarrow> x | None \<Rightarrow> Undefined)
      | _ \<Rightarrow> Undefined)"

text \<open>\<open>v?.k\<close> and \<open>v?.[0]\<close>.\<close>

definition optProp :: "jsval \<Rightarrow> jsstring \<Rightarrow> jsval" where
  "optProp v k = (if nullish v then Undefined else getProp v k)"

definition optIndex0 :: "jsval \<Rightarrow> jsval" where
  "optIndex0 v = (if nullish v then Undefined else getIndex0 v)"

text \<open>\<open>v.k\<close> and \<open>v[0]\<close>: a TypeError on \<open>undefined\<close> and \<open>null\<close>.\<close>

definition readProp :: "jsval \<Rightarrow> jsstring \<Rightarrow> js_error + jsval" where
  "readProp v k =
     (if nullish v then Inl (JsError (js ''Cannot read properties of undefined or null''))
      else Inr (getProp v k))"

definition readIndex0 :: "jsval \<Rightarrow> js_error + jsval" where
  "readIndex0 v =
     (if nullish v then Inl (JsError (js ''Cannot read properties of undefined or null''))
      else Inr (getIndex0 v))"

text \<open>\<open>text.trim()\<close> on a value: a TypeError unless it is a string.\<close>

definition trimVal :: "jsval \<Rightarrow> js_error + jsstring" where
  "trimVal v =
     (case v of
        JStr s \<Rightarrow> Inr (trim s)
      | _ \<Rightarrow> Inl (JsError (js ''trim is not a function'')))"

text \<open>
  A received HTTP response: its status, its body as text (\<open>resp.text()\<close>) and the outcome
  of parsing the body (\<open>resp.json()\<close>).
\<close>

record http_response =
  status :: nat
  body_text :: jsstring
  body_json :: "js_error + jsval"

definition ok :: "http_response \<Rightarrow> bool" where
  "ok r \<longleftrightarrow> 200 \<le> status r \<and> status r \<le> 299"

text \<open>A POST issued with \<open>fetch\<close>: \<open>req_bearer\<close> is the token of the Authorization header.\<close>

record http_request =
  req_url :: jsstring
  req_bearer :: "jsstring option"
  req_prompt :: jsstring
  req_maxOutputTokens :: nat
  req_temperature :: rat

text \<open>
  Everything outside the popup that one run of \<open>analyzeProduct\<close> observes.
  \<open>GEMINI_API_KEY\<close> is read by the first popup script and declared outside the source
  files at hand. \<open>active_tab\<close> is the first tab of \<open>chrome.tabs.query\<close> (\<open>None\<close>: the
  array is empty) with its \<open>id\<close>; \<open>extract_reply\<close> is the answer to the \<open>extractProduct\<close>
  message; \<open>port_error\<close> is \<open>chrome.runtime.lastError\<close> of the popup's message to the
  background and \<open>background_up\<close> says whether the background answered;
  \<open>auth_lastError\<close> and \<open>auth_token\<close> are what \<open>chrome.identity.getAuthToken\<close> hands to
  its callback.
\<close>

record world =
  GEMINI_API_KEY :: jsstring
  active_tab :: "nat option option"
  extract_reply :: "js_error + product option"
  now :: nat
  storage_fault :: "js_error option"
  popup_href :: jsstring
  port_error :: "jsstring option"
  background_up :: bool
  auth_lastError :: bool
  auth_token :: "jsstring option"
  fetch :: "http_request \<Rightarrow> js_error + http_response"

text \<open>\<open>getTokenSilent\<close>, lines 164-171.\<close>

definition getTokenSilent :: "world \<Rightarrow> jsstring option" where
  "getTokenSilent w =
     (if auth_lastError w \<or> \<not> truthyS (auth_token w) then None else auth_token w)"

definition endpoint :: jsstring where
  "endpoint =
     js ''https://generativelanguage.googleapis.com/v1beta/models/gemini-1.5-flash-latest:generateContent''"

definition prompt1 :: "product \<Rightarrow> jsstring" where
  \<open>prompt1 p =
     js ''Analyze this product: "'' @ title p @ js ''" priced at $'' @ price p @
     js '' from '' @ url p @ js ''.'' @ [10, 10] @
     js ''Provide 3-5 actionable shopping suggestions:'' @ [10] @
     js ''- Better or cheaper alternatives'' @ [10] @
     js ''- Where to buy (specific stores/sites)'' @ [10] @
     js ''- Estimated prices'' @ [10] @
     js ''- Why each alternative is better'' @ [10, 10] @
     js ''Keep suggestions concise, helpful, and unbiased. Format as a numbered list.''\<close>

definition notSignedIn :: jsstring where
  "notSignedIn = js ''Not signed in. Please sign in with Google to enable AI suggestions.''"

definition apiError1 :: "nat \<Rightarrow> jsstring \<Rightarrow> jsstring" where
  "apiError1 st txt = js ''API error '' @ showNat st @ js '': '' @ txt"

definition unexpected1 :: jsstring where
  "unexpected1 = js ''Unexpected API response format''"

definition request1 :: "jsstring \<Rightarrow> product \<Rightarrow> http_request" where
  "request1 tok p =
     \<lparr>req_url = endpoint, req_bearer = Some tok, req_prompt = prompt1 p,
      req_maxOutputTokens = 500, req_temperature = 7 / 10\<rparr>"

text \<open>
  \<open>handleAnalyze\<close>, lines 130-162: the outcome and the requests issued with \<open>fetch\<close>, in
  order.
\<close>

definition handleAnalyze :: "world \<Rightarrow> product \<Rightarrow> (js_error + jsstring) \<times> http_request list" where
  "handleAnalyze w p =
     (case getTokenSilent w of
        None \<Rightarrow> (Inl (JsError notSignedIn), [])
      | Some tok \<Rightarrow>
          (case fetch w (request1 tok p) of
             Inl e \<Rightarrow> (Inl e, [request1 tok p])
           | Inr resp \<Rightarrow>
               if \<not> ok resp
               then (Inl (JsError (apiError1 (status resp) (body_text resp))), [request1 tok p])
               else
                 (case body_json resp of
                    Inl e \<Rightarrow> (Inl e, [request1 tok p])
                  | Inr data \<Rightarrow>
                      let text =
                        optProp (optIndex0 (optProp (optProp (optIndex0
                          (optProp data (js ''candidates''))) (js ''content'')) (js ''parts'')))
                          (js ''text'')
                      in if \<not> truthy text then (Inl (JsError unexpected1), [request1 tok p])
                         else (trimVal text, [request1 tok p]))))"

text \<open>The listener for \<open>analyzeWithAI\<close>, lines 98-101: what is sent back to the popup.\<close>

datatype bg_response = SuggestionsResp jsstring | ErrorResp jsstring

definition onAnalyzeWithAI :: "world \<Rightarrow> product \<Rightarrow> bg_response" where
  "onAnalyzeWithAI w p =
     (case fst (handleAnalyze w p) of
        Inr r \<Rightarrow> SuggestionsResp r
      | Inl e \<Rightarrow> ErrorResp (message e))"

section \<open>The popup (popup.js)\<close>

text \<open>
  \<open>popup.js\<close> holds two popup scripts: the first (lines 1-374) asks the background worker
  for suggestions, the second (lines 375-584) calls the generation endpoint itself.
  Definitions of the second carry the suffix \<open>2\<close>.

  The markup of \<open>outputDiv\<close> is kept as the list of the fragments written into it:
  \<open>innerHTML += html\<close> appends a fragment, \<open>innerHTML = html\<close> replaces them all.
\<close>

datatype view_state = Initial | Loading | Results | Failed

record entry = product +
  timestamp :: nat

datatype block =
    ProductInfo product
  | SuggestionList "jsstring list"
  | Message jsstring
  | ErrorMessage jsstring

record popup =
  isTrackingEnabled :: bool
  history :: "entry list"
  currentState :: view_state
  outputDiv :: "block list"
  loadingShown :: bool
  announced :: "jsstring list"
  stored_hist :: "entry list"

text \<open>\<open>text.split('\n')\<close>.\<close>

fun splitLines :: "jsstring \<Rightarrow> jsstring list" where
  "splitLines [] = [[]]"
| "splitLines (c # cs) =
     (if c = 10 then [] # splitLines cs
      else (case splitLines cs of [] \<Rightarrow> [[c]] | l # ls \<Rightarrow> (c # l) # ls))"

text \<open>\<open>/^\d+\./.test(s)\<close> and \<open>/^[-\<bullet>*]/.test(s)\<close>, line 300.\<close>

definition testNumbered :: "jsstring \<Rightarrow> bool" where
  "testNumbered s \<longleftrightarrow>
     takeWhile isDigit s \<noteq> [] \<and>
     (case dropWhile isDigit s of [] \<Rightarrow> False | c # _ \<Rightarrow> c = 46)"

definition testBullet :: "jsstring \<Rightarrow> bool" where
  "testBullet s \<longleftrightarrow> (case s of [] \<Rightarrow> False | c # _ \<Rightarrow> c = 45 \<or> c = 8226 \<or> c = 42)"

text \<open>The array \<open>suggestions\<close> of \<open>renderSuggestions\<close>, lines 298-301 and line 543.\<close>

definition suggestionLines :: "jsstring \<Rightarrow> jsstring list" where
  "suggestionLines text =
     (let lines = filter (\<lambda>line. trim line \<noteq> []) (splitLines text)
      in filter (\<lambda>line. testNumbered (trim line) \<or> testBullet (trim line) \<or> length line > 10)
           lines)"

definition suggestionLines2 :: "jsstring \<Rightarrow> jsstring list" where
  "suggestionLines2 text =
     filter (\<lambda>line. trim line \<noteq> [] \<and> \<not> startsWith line (js ''-'')) (splitLines text)"

definition renderProduct :: "product \<Rightarrow> popup \<Rightarrow> popup" where
  "renderProduct d st = st\<lparr>outputDiv := outputDiv st @ [ProductInfo d]\<rparr>"

definition renderSuggestions :: "jsstring \<Rightarrow> popup \<Rightarrow> popup" where
  "renderSuggestions text st = st\<lparr>outputDiv := outputDiv st @ [SuggestionList (suggestionLines text)]\<rparr>"

definition renderSuggestions2 :: "jsstring \<Rightarrow> popup \<Rightarrow> popup" where
  "renderSuggestions2 text st =
     st\<lparr>outputDiv := outputDiv st @ [SuggestionList (suggestionLines2 text)]\<rparr>"

definition showLoading :: "bool \<Rightarrow> popup \<Rightarrow> popup" where
  "showLoading b st = st\<lparr>loadingShown := b\<rparr>"

definition showMessage :: "jsstring \<Rightarrow> popup \<Rightarrow> popup" where
  "showMessage msg st = st\<lparr>outputDiv := [Message msg]\<rparr>"

definition showError :: "jsstring \<Rightarrow> popup \<Rightarrow> popup" where
  "showError msg st = st\<lparr>outputDiv := [ErrorMessage msg]\<rparr>"

definition announceToScreenReader :: "jsstring \<Rightarrow> popup \<Rightarrow> popup" where
  "announceToScreenReader m st = st\<lparr>announced := announced st @ [m]\<rparr>"

text \<open>
  Lines 177-181 and 457-462: \<open>history.unshift({...productData, timestamp: Date.now()})\<close>,
  \<open>history.splice(50)\<close>, then the write to storage, which may reject after the list has
  been changed.
\<close>

definition entryOf :: "product \<Rightarrow> nat \<Rightarrow> entry" where
  "entryOf pd t =
     \<lparr>title = title pd, price = price pd, image = image pd, url = url pd, timestamp = t\<rparr>"

definition logHistory :: "world \<Rightarrow> product \<Rightarrow> popup \<Rightarrow> js_error option \<times> popup" where
  "logHistory w pd st =
     (if isTrackingEnabled st
      then
        let st1 = st\<lparr>history := take 50 (entryOf pd (now w) # history st)\<rparr>
        in (case storage_fault w of
              Some err \<Rightarrow> (Some err, st1)
            | None \<Rightarrow> (None, st1\<lparr>stored_hist := history st1\<rparr>))
      else (None, st))"

text \<open>\<open>callBackgroundAI\<close>, lines 218-227.\<close>

definition callBackgroundAI :: "world \<Rightarrow> product \<Rightarrow> js_error + jsstring" where
  "callBackgroundAI w p =
     (case port_error w of
        Some m \<Rightarrow> Inl (JsError m)
      | None \<Rightarrow>
          if \<not> background_up w then Inl (JsError (js ''No response from background''))
          else
            (case onAnalyzeWithAI w p of
               ErrorResp e \<Rightarrow> if e \<noteq> [] then Inl (JsError e) else Inr []
             | SuggestionsResp r \<Rightarrow> Inr r))"

definition tabUndefined :: jsstring where
  "tabUndefined = js ''Cannot read properties of undefined (reading id)''"

definition getDemoSuggestions :: jsstring where
  "getDemoSuggestions =
     js ''1. Check eBay for similar items - Often 20-30% cheaper'' @ [10] @
     js ''2. Wait for Amazon Prime Day - Significant discounts expected'' @ [10] @
     js ''3. Compare at Walmart.com - Price match guarantee available'' @ [10] @
     js ''4. Consider refurbished options - Save 40% with warranty'' @ [10] @
     js ''5. Check CamelCamelCamel for price history - Buy at optimal time''"

definition demoProduct :: "world \<Rightarrow> product" where
  "demoProduct w =
     \<lparr>title = js ''Demo Product (API Error)'', price = js ''29.99'', image = [],
      url = popup_href w\<rparr>"

definition demoNotice :: jsstring where
  "demoNotice = [9888, 65039] @ js '' Using demo mode. Check your API key configuration.''"

text \<open>The \<open>try\<close> block of the first \<open>analyzeProduct\<close>, lines 160-191: the exception that
  leaves it, if any, and the state at that point.\<close>

definition analyze_try :: "world \<Rightarrow> popup \<Rightarrow> js_error option \<times> popup" where
  "analyze_try w st =
     (if GEMINI_API_KEY w = [] \<or> \<not> startsWith (GEMINI_API_KEY w) (js ''AIza'')
      then (Some (JsError (js ''API key not configured. Please check your .env file.'')), st)
      else
        (case active_tab w of
           None \<Rightarrow> (Some (JsError tabUndefined), st)
         | Some tid \<Rightarrow>
             if tid = None \<or> tid = Some 0
             then (Some (JsError (js ''No active tab found.'')), st)
             else
               (case extract_reply w of
                  Inl e \<Rightarrow> (Some e, st)
                | Inr productData \<Rightarrow>
                    (case productData of
                       None \<Rightarrow>
                         (Some (JsError (js
                            ''No product detected. Try an e-commerce site like Amazon, eBay, or Walmart.'')),
                          st)
                     | Some pd \<Rightarrow>
                         if title pd = []
                         then
                           (Some (JsError (js
                              ''No product detected. Try an e-commerce site like Amazon, eBay, or Walmart.'')),
                            st)
                         else
                           (case logHistory w pd st of
                              (Some e, st1) \<Rightarrow> (Some e, st1)
                            | (None, st1) \<Rightarrow>
                                (case callBackgroundAI w pd of
                                   Inl e \<Rightarrow> (Some e, st1)
                                 | Inr suggestions \<Rightarrow>
                                     (None,
                                      announceToScreenReader (js ''Analysis complete'')
                                        (showLoading False
                                          (renderSuggestions suggestions
                                            (renderProduct pd
                                              (st1\<lparr>currentState := Results\<rparr>)))))))))))"

text \<open>The \<open>catch\<close> block, lines 193-212.\<close>

definition analyze_catch :: "world \<Rightarrow> js_error \<Rightarrow> popup \<Rightarrow> popup" where
  "analyze_catch w err st =
     (let st1 = st\<lparr>currentState := Failed\<rparr>;
          st2 =
            (if includes_js (message err) (js ''API key'') \<or>
                includes_js (message err) (js ''API error'')
             then showMessage demoNotice
                    (renderSuggestions getDemoSuggestions (renderProduct (demoProduct w) st1))
             else showError (js ''Analysis failed: '' @ message err) st1)
      in announceToScreenReader (js ''Analysis failed'') (showLoading False st2))"

text \<open>\<open>analyzeProduct\<close>, lines 153-213.\<close>

definition analyzeProduct :: "world \<Rightarrow> popup \<Rightarrow> popup" where
  "analyzeProduct w st =
     (let st0 =
            announceToScreenReader (js ''Analyzing product'')
              ((showLoading True (st\<lparr>currentState := Loading\<rparr>))\<lparr>outputDiv := []\<rparr>)
      in (case analyze_try w st0 of
            (None, st1) \<Rightarrow> st1
          | (Some err, st1) \<Rightarrow> analyze_catch w err st1))"

subsection \<open>The second popup script\<close>

definition apiKey :: jsstring where
  "apiKey = js ''AIzaYourFreeGeminiKeyFromEnvHere''"

definition prompt2 :: "product \<Rightarrow> jsstring" where
  \<open>prompt2 p =
     js ''Analyze this product: "'' @ title p @ js ''" for $'' @ price p @ js '' at '' @ url p @
     js ''.'' @ [10] @
     js ''  Suggest 3-5 better or cheaper alternatives (include why, est. price, where to buy). Keep concise, helpful, unbiased.''\<close>

definition request2 :: "product \<Rightarrow> http_request" where
  "request2 p =
     \<lparr>req_url = endpoint @ js ''?key='' @ apiKey, req_bearer = None, req_prompt = prompt2 p,
      req_maxOutputTokens = 300, req_temperature = 7 / 10\<rparr>"

definition apiError2 :: "nat \<Rightarrow> jsstring \<Rightarrow> jsstring" where
  "apiError2 st txt =
     js ''API error: '' @ showNat st @ js '' ('' @ txt @
     js '') - Check key/limits at aistudio.google.com''"

definition unexpected2 :: jsstring where
  "unexpected2 = js ''Unexpected API response'' @ [8212] @ js ''try a fresh key.''"

text \<open>\<open>data.candidates[0]?.content?.parts[0]?.text\<close> for a truthy \<open>data.candidates\<close>.\<close>

definition firstText2 :: "jsval \<Rightarrow> js_error + jsval" where
  "firstText2 cands =
     (let c0 = getIndex0 cands
      in if nullish c0 then Inr Undefined
         else
           let cont = getProp c0 (js ''content'')
           in if nullish cont then Inr Undefined
              else bindE (readIndex0 (getProp cont (js ''parts''))) (\<lambda>p0.
                     Inr (optProp p0 (js ''text''))))"

text \<open>\<open>callGeminiAPI\<close>, lines 487-522, with the requests issued.\<close>

definition callGeminiAPI :: "world \<Rightarrow> product \<Rightarrow> (js_error + jsstring) \<times> http_request list" where
  "callGeminiAPI w p =
     (case fetch w (request2 p) of
        Inl e \<Rightarrow> (Inl e, [request2 p])
      | Inr resp \<Rightarrow>
          if \<not> ok resp
          then (Inl (JsError (apiError2 (status resp) (body_text resp))), [request2 p])
          else
            (case body_json resp of
               Inl e \<Rightarrow> (Inl e, [request2 p])
             | Inr data \<Rightarrow>
                 (bindE (readProp data (js ''candidates'')) (\<lambda>cands.
                    if \<not> truthy cands then Inl (JsError unexpected2)
                    else bindE (firstText2 cands) (\<lambda>text.
                           if \<not> truthy text then Inl (JsError unexpected2)
                           else trimVal text)),
                  [request2 p])))"

definition demoProduct2 :: "world \<Rightarrow> product" where
  "demoProduct2 w =
     \<lparr>title = js ''Demo Product'', price = js ''N/A'', image = [], url = popup_href w\<rparr>"

definition demoSuggestions2 :: jsstring where
  "demoSuggestions2 =
     js ''Demo Suggestion 1: Cheaper alt on eBay for $15 (better reviews).'' @ [10] @
     js ''Demo Suggestion 2: Similar on Walmart, save 20% with bundle.''"

definition demoMode2 :: jsstring where
  "demoMode2 =
     js ''Demo mode: API key not set'' @ [8212] @
     js ''using mock suggestions. (Check popup.js for .env swap.)''"

text \<open>The \<open>try\<close> block of the second \<open>analyzeProduct\<close>, lines 440-470.\<close>

definition analyze_try2 :: "world \<Rightarrow> popup \<Rightarrow> js_error option \<times> popup" where
  "analyze_try2 w st =
     (if apiKey = [] \<or> \<not> startsWith apiKey (js ''AIza'')
      then (Some (JsError demoMode2), st)
      else
        (case active_tab w of
           None \<Rightarrow> (Some (JsError tabUndefined), st)
         | Some tid \<Rightarrow>
             if tid = None \<or> tid = Some 0
             then (Some (JsError (js ''No active tab found.'')), st)
             else
               (case extract_reply w of
                  Inl e \<Rightarrow> (Some e, st)
                | Inr productData \<Rightarrow>
                    (case productData of
                       None \<Rightarrow>
                         (Some (JsError (js
                            ''No product detected on this page. Try an e-commerce site like Amazon.'')),
                          st)
                     | Some pd \<Rightarrow>
                         if title pd = []
                         then
                           (Some (JsError (js
                              ''No product detected on this page. Try an e-commerce site like Amazon.'')),
                            st)
                         else
                           (case logHistory w pd st of
                              (Some e, st1) \<Rightarrow> (Some e, st1)
                            | (None, st1) \<Rightarrow>
                                (case fst (callGeminiAPI w pd) of
                                   Inl e \<Rightarrow> (Some e, st1)
                                 | Inr suggestions \<Rightarrow>
                                     (None,
                                      showLoading False
                                        (renderSuggestions2 suggestions
                                          (renderProduct pd st1)))))))))"

text \<open>The \<open>catch\<close> block, lines 471-480.\<close>

definition analyze_catch2 :: "world \<Rightarrow> js_error \<Rightarrow> popup \<Rightarrow> popup" where
  "analyze_catch2 w err st =
     (let st1 =
            (if includes_js (message err) (js ''Demo mode'') \<or>
                includes_js (message err) (js ''API error'')
             then renderSuggestions2 demoSuggestions2 (renderProduct (demoProduct2 w) st)
             else showError (js ''Analysis failed: '' @ message err) st)
      in showLoading False st1)"

text \<open>\<open>analyzeProduct\<close>, lines 435-481.\<close>

definition analyzeProduct2 :: "world \<Rightarrow> popup \<Rightarrow> popup" where
  "analyzeProduct2 w st =
     (let st0 = (showLoading True st)\<lparr>outputDiv := []\<rparr>
      in (case analyze_try2 w st0 of
            (None, st1) \<Rightarrow> st1
          | (Some err, st1) \<Rightarrow> analyze_catch2 w err st1))"

text \<open>A sequence of analyze runs, one environment per run.\<close>

fun runs :: "world list \<Rightarrow> popup \<Rightarrow> popup" where
  "runs [] st = st"
| "runs (w # ws) st = runs ws (analyzeProduct w st)"

fun runs2 :: "world list \<Rightarrow> popup \<Rightarrow> popup" where
  "runs2 [] st = st"
| "runs2 (w # ws) st = runs2 ws (analyzeProduct2 w st)"

section \<open>Notions used to state the properties\<close>

text \<open>Joining lines with a newline between them, the inverse of \<open>split('\n')\<close>.\<close>

fun joinLines :: "jsstring list \<Rightarrow> jsstring" where
  "joinLines [] = []"
| "joinLines [l] = l"
| "joinLines (l # k # ls) = l @ 10 # joinLines (k # ls)"

text \<open>
  The environment lets a run get as far as the history step with the product \<open>pd\<close>: a tab
  with a truthy id and an extraction reply with a title.
\<close>

definition reachesLog :: "world \<Rightarrow> product \<Rightarrow> bool" where
  "reachesLog w pd \<longleftrightarrow>
     (case active_tab w of Some (Some n) \<Rightarrow> n \<noteq> 0 | _ \<Rightarrow> False) \<and>
     extract_reply w = Inr (Some pd) \<and> title pd \<noteq> []"

text \<open>
  A match of the currency pattern can start at position \<open>k\<close> of a text: a dollar sign
  there, followed by a digit or a comma.
\<close>

definition matchStartsAt :: "jsstring \<Rightarrow> nat \<Rightarrow> bool" where
  "matchStartsAt t k \<longleftrightarrow> Suc k < length t \<and> t ! k = 36 \<and> isDigitOrComma (t ! Suc k)"

text \<open>
  The run gets past the history step (its write to storage succeeds), and, for the first
  popup script, the key is configured and the background answers the message.
\<close>

definition reachesService :: "world \<Rightarrow> product \<Rightarrow> popup \<Rightarrow> bool" where
  "reachesService w pd st \<longleftrightarrow>
     reachesLog w pd \<and> (isTrackingEnabled st \<longrightarrow> storage_fault w = None)"

definition reachesBackground :: "world \<Rightarrow> product \<Rightarrow> popup \<Rightarrow> bool" where
  "reachesBackground w pd st \<longleftrightarrow>
     GEMINI_API_KEY w \<noteq> [] \<and> startsWith (GEMINI_API_KEY w) (js ''AIza'') \<and>
     reachesService w pd st \<and> port_error w = None \<and> background_up w"

section \<open>Example inputs\<close>

definition textElement :: "jsstring \<Rightarrow> element" where
  "textElement s = \<lparr>innerText = Some s, src = None, content = None\<rparr>"

text \<open>A product page of the first marketplace.\<close>

definition kettlePage :: page where
  "kettlePage =
     \<lparr>href = js ''https://www.amazon.com/dp/B01'',
      doc_title = js ''Kettle - Shop'',
      query = (\<lambda>sel.
        if sel = js ''#productTitle'' then Inr (Some (textElement (js '' Steel Kettle '')))
        else if sel = js ''.a-price-whole'' then Inr (Some (textElement (js ''$1,234'')))
        else if sel = js ''.a-price-fraction'' then Inr (Some (textElement (js ''56'')))
        else Inr None),
      body = Some []\<rparr>"

definition kettle :: product where
  "kettle =
     \<lparr>title = js ''Steel Kettle'', price = js ''1234.56'', image = [],
      url = js ''https://www.amazon.com/dp/B01''\<rparr>"

text \<open>The same page with an SVG element under \<open>#productTitle\<close>: it has no \<open>innerText\<close>.\<close>

definition svgPage :: page where
  "svgPage =
     kettlePage\<lparr>query := (\<lambda>sel.
        if sel = js ''#productTitle''
        then Inr (Some \<lparr>innerText = None, src = None, content = None\<rparr>)
        else Inr None)\<rparr>"

text \<open>Pages of an unknown shop, with and without a price in their text.\<close>

definition shopKids :: "dom_node list" where
  "shopKids =
     [ElementNode [TextNode (js ''Sale''), OtherNode,
        ElementNode [TextNode (js ''Now $1,299.50 was $1,500'')]],
      TextNode (js ''$5'')]"

definition shopPage :: page where
  "shopPage =
     \<lparr>href = js ''https://shop.example/item'', doc_title = js ''Lamp - Shop'',
      query = (\<lambda>sel. Inr None), body = Some shopKids\<rparr>"

definition plainPage :: page where
  "plainPage = shopPage\<lparr>body := Some [ElementNode [TextNode (js ''Sale'')]]\<rparr>"

text \<open>Pages whose first currency match has no digit, or a single decimal.\<close>

definition commaPage :: page where
  "commaPage = shopPage\<lparr>body := Some [TextNode (js ''Prices in $, not EUR'')]\<rparr>"

definition fractionPage :: page where
  "fractionPage = shopPage\<lparr>body := Some [TextNode (js ''Only $5.1 million'')]\<rparr>"

text \<open>The candidate text of the rendering example.\<close>

definition tryXY :: jsstring where
  "tryXY = js ''1. Try X'' @ [10] @ js ''2. Try Y''"

text \<open>
  The success response of the generation endpoint with the candidate text \<open>t\<close>:
  \<open>{candidates: [{content: {parts: [{text: t}]}}]}\<close>.
\<close>

definition candidateShape :: "jsstring \<Rightarrow> jsval" where
  "candidateShape t =
     JObj [(js ''candidates'',
       JArr [JObj [(js ''content'',
         JObj [(js ''parts'', JArr [JObj [(js ''text'', JStr t)]])])]])]"

definition okResponse :: "jsstring \<Rightarrow> http_response" where
  "okResponse t =
     \<lparr>status = 200, body_text = [], body_json = Inr (candidateShape t)\<rparr>"

definition failResponse :: http_response where
  "failResponse =
     \<lparr>status = 500, body_text = js ''boom'',
      body_json = Inl (JsError (js ''Unexpected token''))\<rparr>"

text \<open>
  A run in which everything works: a configured key, a tab, an extracted product, a
  signed-in user and a success response. The variants change one thing each.
\<close>

definition baseWorld :: world where
  "baseWorld =
     \<lparr>GEMINI_API_KEY = js ''AIzaKey'', active_tab = Some (Some 7),
      extract_reply = Inr (Some kettle), now = 1700000000000, storage_fault = None,
      popup_href = js ''chrome-extension://popup.html'', port_error = None,
      background_up = True, auth_lastError = False, auth_token = Some (js ''tok''),
      fetch = (\<lambda>req. Inr (okResponse (js '' 1. Try X '')))\<rparr>"

definition noAuthWorld :: world where
  "noAuthWorld = baseWorld\<lparr>auth_token := None\<rparr>"

definition failWorld :: world where
  "failWorld = baseWorld\<lparr>fetch := (\<lambda>req. Inr failResponse)\<rparr>"

definition emptyTextWorld :: world where
  "emptyTextWorld = baseWorld\<lparr>fetch := (\<lambda>req. Inr (okResponse []))\<rparr>"

text \<open>
  A success response as the endpoint sends it, with members beside the ones the program
  reads, a second part and a second candidate; and the runs that receive it.
\<close>

definition richPart :: "jsstring \<Rightarrow> (jsstring \<times> jsval) list" where
  "richPart t = [(js ''text'', JStr t)]"

definition richContent :: "jsstring \<Rightarrow> (jsstring \<times> jsval) list" where
  "richContent t =
     [(js ''role'', JStr (js ''model'')),
      (js ''parts'', JArr [JObj (richPart t), JObj (richPart (js ''more''))])]"

definition richCandidate :: "jsstring \<Rightarrow> (jsstring \<times> jsval) list" where
  "richCandidate t =
     [(js ''finishReason'', JStr (js ''STOP'')), (js ''index'', JNum 0),
      (js ''content'', JObj (richContent t))]"

definition richDoc :: "jsstring \<Rightarrow> (jsstring \<times> jsval) list" where
  "richDoc t =
     [(js ''modelVersion'', JStr (js ''gemini-1.5-flash'')),
      (js ''candidates'',
       JArr [JObj (richCandidate t), JObj (richCandidate (js ''second''))])]"

definition richResponse :: "jsstring \<Rightarrow> http_response" where
  "richResponse t = \<lparr>status = 200, body_text = [], body_json = Inr (JObj (richDoc t))\<rparr>"

definition richEmptyWorld :: world where
  "richEmptyWorld = baseWorld\<lparr>fetch := (\<lambda>req. Inr (richResponse []))\<rparr>"

definition richWorld :: world where
  "richWorld = baseWorld\<lparr>fetch := (\<lambda>req. Inr (richResponse (js '' 1. Try X '')))\<rparr>"

text \<open>A popup that has just been opened, and one with tracking on and a full history.\<close>

definition freshPopup :: popup where
  "freshPopup =
     \<lparr>isTrackingEnabled = False, history = [], currentState = Initial, outputDiv = [],
      loadingShown = False, announced = [], stored_hist = []\<rparr>"

definition fullPopup :: popup where
  "fullPopup =
     freshPopup\<lparr>isTrackingEnabled := True, history := replicate 50 (entryOf kettle 1),
       stored_hist := replicate 50 (entryOf kettle 1)\<rparr>"

section \<open>Price normalization\<close>

lemma replaceClass_empty: "replaceClass cls [] s = filter (\<lambda>c. \<not> cls c) s"
  by (induction s) auto

lemma js_dollar_price: "js ''$1,234.56'' = [36, 49, 44, 50, 51, 52, 46, 53, 54]"
  by (simp add: js_def)

lemma js_clean_price: "js ''1234.56'' = [49, 50, 51, 52, 46, 53, 54]"
  by (simp add: js_def)

text \<open>
  Claim C2. For every raw price string, normalization keeps exactly the digits and the
  periods, in their order, and removes every other character; \<open>$1,234.56\<close> becomes
  \<open>1234.56\<close>.
\<close>

theorem cleanPrice_strips:
  "cleanPrice s = filter (\<lambda>c. isDigit c \<or> c = 46) s \<and>
   cleanPrice (js ''$1,234.56'') = js ''1234.56''"
  by (simp add: cleanPrice_def replaceClass_empty js_dollar_price js_clean_price isDigit_def)

section \<open>The price text scan\<close>

lemma walk_none: "\<forall>t\<in>set ts. priceMatch t = None \<Longrightarrow> walk ts = []"
  by (induction ts) auto

lemma walk_first:
  "\<forall>u\<in>set pre. priceMatch u = None \<Longrightarrow> priceMatch t = Some m \<Longrightarrow> walk (pre @ t # post) = m"
  by (induction pre) auto

lemma matchHere_None_iff:
  "matchHere s = None \<longleftrightarrow> \<not> (\<exists>c r. s = 36 # c # r \<and> isDigitOrComma c)"
proof (cases s)
  case Nil
  then show ?thesis by (simp add: matchHere_def)
next
  case (Cons x r)
  show ?thesis
  proof (cases r)
    case Nil
    with Cons show ?thesis by (simp add: matchHere_def)
  next
    case (Cons c r')
    with \<open>s = x # r\<close> show ?thesis by (simp add: matchHere_def Let_def)
  qed
qed

lemma matchStartsAt_0:
  "matchStartsAt (c # cs) 0 \<longleftrightarrow> c = 36 \<and> (\<exists>d r. cs = d # r \<and> isDigitOrComma d)"
  by (cases cs) (auto simp: matchStartsAt_def)

lemma matchStartsAt_Suc: "matchStartsAt (c # cs) (Suc k) \<longleftrightarrow> matchStartsAt cs k"
  by (simp add: matchStartsAt_def)

lemma matchHere_None_start: "matchHere (c # cs) = None \<longleftrightarrow> \<not> matchStartsAt (c # cs) 0"
  by (auto simp: matchHere_None_iff matchStartsAt_0)

lemma priceMatch_None_iff: "priceMatch t = None \<longleftrightarrow> (\<forall>k. \<not> matchStartsAt t k)"
proof (induction t)
  case Nil
  then show ?case by (simp add: matchStartsAt_def)
next
  case (Cons c cs)
  have "(\<forall>k. \<not> matchStartsAt (c # cs) k) \<longleftrightarrow>
        \<not> matchStartsAt (c # cs) 0 \<and> (\<forall>k. \<not> matchStartsAt cs k)"
    by (metis matchStartsAt_Suc not0_implies_Suc)
  then show ?case
    using Cons.IH matchHere_None_start[of c cs] by (auto split: option.splits)
qed

lemma matchHere_drop_None:
  assumes "k < length t" "matchHere (drop k t) = None"
  shows "\<not> matchStartsAt t k"
proof
  assume s: "matchStartsAt t k"
  then have l: "Suc k < length t" by (simp add: matchStartsAt_def)
  have "drop k t = t ! k # t ! Suc k # drop (Suc (Suc k)) t"
    using l by (simp add: Cons_nth_drop_Suc Suc_lessD)
  with s assms(2) show False
    by (auto simp: matchHere_None_iff matchStartsAt_def)
qed

lemma matchHere_greedy:
  assumes "matchHere s = Some m"
  shows "\<exists>b ds dot frac. s = m @ b \<and> m = 36 # ds @ dot @ frac \<and> ds \<noteq> [] \<and>
           (\<forall>d\<in>set ds. isDigit d \<or> d = 44) \<and> (dot = [] \<or> dot = [46]) \<and>
           (\<forall>d\<in>set frac. isDigit d) \<and> length frac \<le> 2 \<and>
           (dot @ frac @ b = [] \<or> \<not> isDigitOrComma (hd (dot @ frac @ b))) \<and>
           (dot = [] \<longrightarrow> frac = [] \<and> (b = [] \<or> hd b \<noteq> 46)) \<and>
           (length frac = 2 \<or> b = [] \<or> \<not> isDigit (hd b))"
proof -
  from assms obtain r where s: "s = 36 # r"
    by (auto simp: matchHere_def split: list.splits if_splits)
  define ds where "ds = takeWhile isDigitOrComma r"
  define r2 where "r2 = dropWhile isDigitOrComma r"
  define dot where "dot = (case r2 of [] \<Rightarrow> [] | d # _ \<Rightarrow> if d = 46 then [46::nat] else [])"
  define r3 where "r3 = drop (length dot) r2"
  define frac where "frac = takeWhile isDigit (take 2 r3)"
  define b where "b = dropWhile isDigit (take 2 r3) @ drop 2 r3"
  from assms s have ne: "ds \<noteq> []" and m: "m = 36 # ds @ dot @ frac"
    by (auto simp: matchHere_def Let_def ds_def r2_def dot_def r3_def frac_def split: if_splits)
  have r: "r = ds @ r2" by (simp add: ds_def r2_def)
  have r2: "r2 = dot @ r3"
    by (auto simp: dot_def r3_def split: list.splits)
  have "take 2 r3 = frac @ dropWhile isDigit (take 2 r3)" by (simp add: frac_def)
  then have r3: "r3 = frac @ b"
    unfolding b_def by (metis append_assoc append_take_drop_id)
  have c1: "\<forall>d\<in>set ds. isDigit d \<or> d = 44"
    using set_takeWhileD[of _ isDigitOrComma r] by (auto simp: ds_def isDigitOrComma_def)
  have c2: "\<forall>d\<in>set frac. isDigit d"
    using set_takeWhileD[of _ isDigit "take 2 r3"] by (auto simp: frac_def)
  have c3: "length frac \<le> 2"
    using length_takeWhile_le[of isDigit "take 2 r3"] by (simp add: frac_def)
  have c4: "dot = [] \<or> dot = [46]" by (auto simp: dot_def split: list.splits)
  have g0: "r2 = [] \<or> \<not> isDigitOrComma (hd r2)"
    unfolding r2_def using hd_dropWhile[of isDigitOrComma r] by blast
  have g1: "dot @ frac @ b = [] \<or> \<not> isDigitOrComma (hd (dot @ frac @ b))"
    using g0 r2 r3 by simp
  have g2: "frac = [] \<and> (b = [] \<or> hd b \<noteq> 46)" if d: "dot = []"
  proof -
    from d r2 have e: "r3 = r2" by simp
    have n46: "r2 = [] \<or> hd r2 \<noteq> 46"
      using d by (cases r2) (auto simp: dot_def split: if_splits)
    have "r2 = [] \<or> \<not> isDigit (hd r2)" using g0 by (auto simp: isDigitOrComma_def)
    then have f: "frac = []"
      unfolding frac_def e by (cases r2) auto
    with r3 e have "b = r2" by simp
    with f n46 show ?thesis by simp
  qed
  have g3: "length frac = 2 \<or> b = [] \<or> \<not> isDigit (hd b)"
  proof (cases "dropWhile isDigit (take 2 r3) = []")
    case True
    then have f: "frac = take 2 r3"
      unfolding frac_def by (metis append_Nil2 takeWhile_dropWhile_id)
    show ?thesis
    proof (cases "2 \<le> length r3")
      case True
      with f show ?thesis by simp
    next
      case False
      with \<open>dropWhile isDigit (take 2 r3) = []\<close> have "b = []" by (simp add: b_def)
      then show ?thesis by simp
    qed
  next
    case False
    then have "\<not> isDigit (hd (dropWhile isDigit (take 2 r3)))" by (rule hd_dropWhile)
    moreover have "hd b = hd (dropWhile isDigit (take 2 r3))" using False by (simp add: b_def)
    ultimately show ?thesis by simp
  qed
  have "s = m @ b"
    using s m r r2 r3 by simp
  with m ne c1 c2 c3 c4 g1 g2 g3 show ?thesis by blast
qed

lemma priceMatch_leftmost:
  "priceMatch t = Some m \<Longrightarrow>
   \<exists>a. a = take (length a) t \<and> length a \<le> length t \<and> matchHere (drop (length a) t) = Some m \<and>
       (\<forall>k<length a. matchHere (drop k t) = None)"
proof (induction t)
  case Nil
  then show ?case by simp
next
  case (Cons c cs)
  show ?case
  proof (cases "matchHere (c # cs)")
    case (Some m')
    with Cons.prems have "m' = m" by simp
    with Some have "matchHere (drop (length ([]::nat list)) (c # cs)) = Some m" by simp
    then show ?thesis by (intro exI[of _ "[]"]) simp
  next
    case None
    with Cons.prems have "priceMatch cs = Some m" by simp
    from Cons.IH[OF this] obtain a where a: "a = take (length a) cs" "length a \<le> length cs"
      "matchHere (drop (length a) cs) = Some m" "\<forall>k<length a. matchHere (drop k cs) = None"
      by blast
    have "\<forall>k<length (c # a). matchHere (drop k (c # cs)) = None"
    proof (intro allI impI)
      fix k assume "k < length (c # a)"
      then show "matchHere (drop k (c # cs)) = None"
        using None a(4) by (cases k) auto
    qed
    moreover have "c # a = take (length (c # a)) (c # cs)" using a(1) by simp
    moreover have "matchHere (drop (length (c # a)) (c # cs)) = Some m" using a(3) by simp
    moreover have "length (c # a) \<le> length (c # cs)" using a(2) by simp
    ultimately show ?thesis by blast
  qed
qed

lemma shop_texts:
  "concat (map textNodes shopKids) = [js ''Sale''] @ js ''Now $1,299.50 was $1,500'' # [js ''$5'']"
  by (simp add: shopKids_def)

lemma pm_sale: "priceMatch (js ''Sale'') = None"
  by (simp add: js_def matchHere_def)

lemma pm_now: "priceMatch (js ''Now $1,299.50 was $1,500'') = Some (js ''$1,299.50'')"
  by (simp add: js_def matchHere_def isDigitOrComma_def isDigit_def)

lemma priceMatch_Some_start: "priceMatch t = Some m \<Longrightarrow> \<exists>k. matchStartsAt t k"
  using priceMatch_None_iff[of t] by auto

lemma priceMatch_None_start: "priceMatch t = None \<Longrightarrow> \<forall>k. \<not> matchStartsAt t k"
  using priceMatch_None_iff[of t] by auto

text \<open>
  Claim C9, as amended. \<open>findPrice\<close> goes once through the text nodes below the body in
  document order. When no text node has a position where a match can start it returns the
  empty string. Otherwise it returns the match in the first text node that has such a
  position, whatever follows: the match at the leftmost such position, made of the dollar
  sign, the longest run of digits and commas after it (at least one character), and then,
  if a period follows, that period and the digits after it, two at most. The run may hold
  no digit at all, and the period may be followed by no digit or by one.
\<close>

theorem findPrice_first_match:
  assumes "body pg = Some kids" and "texts = concat (map textNodes kids)"
  shows "((\<forall>t\<in>set texts. \<forall>k. \<not> matchStartsAt t k) \<longrightarrow> findPrice pg = Inr []) \<and>
         (texts = pre @ t # post \<and> (\<forall>u\<in>set pre. \<forall>k. \<not> matchStartsAt u k) \<and>
          (\<exists>k. matchStartsAt t k) \<longrightarrow>
            (\<exists>a b ds dot frac.
               findPrice pg = Inr (36 # ds @ dot @ frac) \<and>
               t = a @ (36 # ds @ dot @ frac) @ b \<and>
               (\<forall>k<length a. \<not> matchStartsAt t k) \<and>
               ds \<noteq> [] \<and> (\<forall>d\<in>set ds. isDigit d \<or> d = 44) \<and>
               (dot = [] \<or> dot = [46]) \<and> (\<forall>d\<in>set frac. isDigit d) \<and> length frac \<le> 2 \<and>
               (dot @ frac @ b = [] \<or> \<not> isDigitOrComma (hd (dot @ frac @ b))) \<and>
               (dot = [] \<longrightarrow> frac = [] \<and> (b = [] \<or> hd b \<noteq> 46)) \<and>
               (length frac = 2 \<or> b = [] \<or> \<not> isDigit (hd b))))"
proof (intro conjI impI)
  assume "\<forall>t\<in>set texts. \<forall>k. \<not> matchStartsAt t k"
  then have "\<forall>t\<in>set texts. priceMatch t = None" by (simp add: priceMatch_None_iff)
  then show "findPrice pg = Inr []"
    using assms by (simp add: findPrice_def walk_none)
next
  assume h: "texts = pre @ t # post \<and> (\<forall>u\<in>set pre. \<forall>k. \<not> matchStartsAt u k) \<and>
          (\<exists>k. matchStartsAt t k)"
  then have pre: "\<forall>u\<in>set pre. priceMatch u = None" by (simp add: priceMatch_None_iff)
  from h have "priceMatch t \<noteq> None" by (simp add: priceMatch_None_iff)
  then obtain m where pm: "priceMatch t = Some m" by blast
  have f: "findPrice pg = Inr m"
    using assms h walk_first[OF pre pm, of post] by (simp add: findPrice_def)
  from priceMatch_leftmost[OF pm] obtain a where a: "a = take (length a) t"
    "length a \<le> length t"
    "matchHere (drop (length a) t) = Some m" "\<forall>k<length a. matchHere (drop k t) = None"
    by blast
  have left: "\<forall>k<length a. \<not> matchStartsAt t k"
    using a(2,4) matchHere_drop_None[of _ t] by auto
  from matchHere_greedy[OF a(3)] obtain b ds dot frac where
    s: "drop (length a) t = m @ b" "m = 36 # ds @ dot @ frac" "ds \<noteq> []"
       "\<forall>d\<in>set ds. isDigit d \<or> d = 44" "dot = [] \<or> dot = [46]"
       "\<forall>d\<in>set frac. isDigit d" "length frac \<le> 2"
       "dot @ frac @ b = [] \<or> \<not> isDigitOrComma (hd (dot @ frac @ b))"
       "dot = [] \<longrightarrow> frac = [] \<and> (b = [] \<or> hd b \<noteq> 46)"
       "length frac = 2 \<or> b = [] \<or> \<not> isDigit (hd b)"
    by blast
  have t: "t = a @ m @ b" using a(1) s(1) by (metis append_take_drop_id)
  show "\<exists>a b ds dot frac.
               findPrice pg = Inr (36 # ds @ dot @ frac) \<and>
               t = a @ (36 # ds @ dot @ frac) @ b \<and>
               (\<forall>k<length a. \<not> matchStartsAt t k) \<and>
               ds \<noteq> [] \<and> (\<forall>d\<in>set ds. isDigit d \<or> d = 44) \<and>
               (dot = [] \<or> dot = [46]) \<and> (\<forall>d\<in>set frac. isDigit d) \<and> length frac \<le> 2 \<and>
               (dot @ frac @ b = [] \<or> \<not> isDigitOrComma (hd (dot @ frac @ b))) \<and>
               (dot = [] \<longrightarrow> frac = [] \<and> (b = [] \<or> hd b \<noteq> 46)) \<and>
               (length frac = 2 \<or> b = [] \<or> \<not> isDigit (hd b))"
    using f t left s(2-10) by blast
qed

theorem findPrice_first_match_witness:
  "body shopPage = Some shopKids \<and> (\<forall>k. \<not> matchStartsAt (js ''Sale'') k) \<and>
   (\<exists>k. matchStartsAt (js ''Now $1,299.50 was $1,500'') k) \<and>
   (\<exists>ds dot frac. findPrice shopPage = Inr (36 # ds @ dot @ frac) \<and> ds \<noteq> []) \<and>
   findPrice shopPage = Inr (js ''$1,299.50'') \<and> findPrice plainPage = Inr []"
proof -
  have b: "body shopPage = Some shopKids" by (simp add: shopPage_def)
  have b2: "body plainPage = Some [ElementNode [TextNode (js ''Sale'')]]"
    by (simp add: plainPage_def)
  have t2: "[js ''Sale''] = concat (map textNodes [ElementNode [TextNode (js ''Sale'')]])"
    by simp
  have n: "\<forall>k. \<not> matchStartsAt (js ''Sale'') k"
    using pm_sale by (rule priceMatch_None_start)
  have y: "\<exists>k. matchStartsAt (js ''Now $1,299.50 was $1,500'') k"
    using pm_now by (rule priceMatch_Some_start)
  have h: "concat (map textNodes shopKids) =
             [js ''Sale''] @ js ''Now $1,299.50 was $1,500'' # [js ''$5''] \<and>
           (\<forall>u\<in>set [js ''Sale'']. \<forall>k. \<not> matchStartsAt u k) \<and>
           (\<exists>k. matchStartsAt (js ''Now $1,299.50 was $1,500'') k)"
    using shop_texts n y by simp
  from findPrice_first_match[OF b refl, THEN conjunct2, THEN mp, OF h]
  obtain a bb ds dot frac where "findPrice shopPage = Inr (36 # ds @ dot @ frac)" "ds \<noteq> []"
    by (elim exE conjE)
  then have s: "\<exists>ds dot frac. findPrice shopPage = Inr (36 # ds @ dot @ frac) \<and> ds \<noteq> []"
    by (intro exI conjI)
  have v: "findPrice shopPage = Inr (js ''$1,299.50'')"
    by (simp add: findPrice_def b shop_texts pm_sale pm_now)
  have h2: "\<forall>t\<in>set [js ''Sale'']. \<forall>k. \<not> matchStartsAt t k" using n by simp
  have p: "findPrice plainPage = Inr []"
    using findPrice_first_match[OF b2 t2, THEN conjunct1, THEN mp, OF h2] .
  from b n y s v p show ?thesis by (intro conjI)
qed

lemma comma_match: "priceMatch (js ''Prices in $, not EUR'') = Some (js ''$,'')"
  by (simp add: js_def matchHere_def isDigitOrComma_def isDigit_def)

lemma fraction_match: "priceMatch (js ''Only $5.1 million'') = Some (js ''$5.1'')"
  by (simp add: js_def matchHere_def isDigitOrComma_def isDigit_def)

text \<open>
  Claim C9 as stated fails: on a text with \<open>$,\<close> the first match is \<open>$,\<close>, which has no
  digit, and on a text with \<open>$5.1 million\<close> it is \<open>$5.1\<close>, with a single decimal.
\<close>

theorem match_without_digits:
  "findPrice commaPage = Inr (js ''$,'') \<and> \<not> list_ex isDigit (js ''$,'') \<and>
   findPrice fractionPage = Inr (js ''$5.1'')"
  by (simp add: findPrice_def commaPage_def fractionPage_def comma_match fraction_match)
     (simp add: js_def isDigit_def)

section \<open>Extraction results\<close>

lemma kettle_fields: "extractFields kettlePage = Inr (js ''Steel Kettle'', js ''$1,234.56'', [])"
  by (simp add: extractFields_def amazonFields_def kettlePage_def textElement_def bindE_def js_def
      innerText_trim_def innerText_opt_trim_def orEmpty_def trim_def isWhite_def isDigit_def
      truthyS_def src_of_def)

lemma kettle_price: "cleanPrice (js ''$1,234.56'') = js ''1234.56''"
  by (simp add: cleanPrice_def js_def isDigit_def)

lemma kettle_title: "js ''Steel Kettle'' \<noteq> []" "js ''1234.56'' \<noteq> []"
  by (simp_all add: js_def)

lemma kettle_extract: "extractProduct kettlePage = Inr (Some kettle)"
  by (simp add: extractProduct_def extractProduct_try_def kettle_fields bindE_def kettle_price
      kettle_title kettle_def)
     (simp add: kettlePage_def)

lemma svg_try: "\<exists>e. extractProduct_try svgPage = Inl e"
  by (simp add: extractProduct_try_def extractFields_def amazonFields_def svgPage_def kettlePage_def
      bindE_def innerText_trim_def) (simp add: js_def)

lemma plain_fields: "extractFields plainPage = Inr (js ''Lamp'', [], [])"
  by (simp add: extractFields_def genericFields_def plainPage_def shopPage_def bindE_def
      innerText_trim_def truthyS_def orEmpty_def content_of_def findPrice_def pm_sale)
     (simp add: js_def isLineTerminator_def)

text \<open>
  Claim C1. \<open>extractProduct\<close> returns a record only when the title and the normalized
  price are both non-empty, and the record carries exactly these; whenever the title or
  the normalized price is empty the result is \<open>null\<close>.
\<close>

theorem extractProduct_valid:
  "(extractProduct pg = Inr (Some r) \<longrightarrow>
      title r \<noteq> [] \<and> price r \<noteq> [] \<and>
      (\<exists>t p i. extractFields pg = Inr (t, p, i) \<and> title r = t \<and> price r = cleanPrice p)) \<and>
   (extractFields pg = Inr (t0, p0, i0) \<and> (t0 = [] \<or> cleanPrice p0 = []) \<longrightarrow>
      extractProduct pg = Inr None)"
  by (auto simp: extractProduct_def extractProduct_try_def bindE_def Let_def
      split: sum.splits if_splits prod.splits)

theorem extractProduct_valid_witness:
  "extractProduct kettlePage = Inr (Some kettle) \<and> title kettle \<noteq> [] \<and> price kettle \<noteq> [] \<and>
   extractFields plainPage = Inr (js ''Lamp'', [], []) \<and> extractProduct plainPage = Inr None"
proof -
  have c: "cleanPrice [] = []" by (simp add: cleanPrice_def)
  show ?thesis
    using extractProduct_valid[of kettlePage kettle] extractProduct_valid[of plainPage _ "js ''Lamp''" "[]" "[]"]
      kettle_extract plain_fields c by simp
qed

text \<open>
  Claim C8. \<open>extractProduct\<close> never passes an exception to its caller: its outcome is a
  record or \<open>null\<close>, and an exception raised in its body becomes \<open>null\<close>.
\<close>

theorem extractProduct_total:
  "(\<exists>r. extractProduct pg = Inr r) \<and>
   (extractProduct_try pg = Inl e \<longrightarrow> extractProduct pg = Inr None)"
  by (auto simp: extractProduct_def split: sum.splits)

theorem extractProduct_total_witness:
  "(\<exists>e. extractProduct_try svgPage = Inl e) \<and> extractProduct svgPage = Inr None"
proof -
  from svg_try obtain e where e: "extractProduct_try svgPage = Inl e" by blast
  with extractProduct_total[of svgPage e] show ?thesis by blast
qed

section \<open>Suggestion segmentation\<close>

lemma splitLines_nonempty: "splitLines t \<noteq> []"
  by (induction t) (auto split: list.splits)

lemma join_split: "joinLines (splitLines t) = t"
proof (induction t)
  case Nil
  then show ?case by simp
next
  case (Cons c cs)
  obtain l ls where s: "splitLines cs = l # ls"
    using splitLines_nonempty[of cs] by (cases "splitLines cs") auto
  show ?case
  proof (cases "c = 10")
    case True
    with Cons s show ?thesis by simp
  next
    case False
    with Cons s show ?thesis by (cases ls) auto
  qed
qed

lemma splitLines_no_newline: "l \<in> set (splitLines t) \<Longrightarrow> 10 \<notin> set l"
  by (induction t arbitrary: l) (auto split: if_splits list.splits)

lemma testNumbered_iff:
  "testNumbered s \<longleftrightarrow> (\<exists>ds rest. ds \<noteq> [] \<and> (\<forall>d\<in>set ds. isDigit d) \<and> s = ds @ 46 # rest)"
proof
  assume t: "testNumbered s"
  then obtain rest where r: "dropWhile isDigit s = 46 # rest"
    by (auto simp: testNumbered_def split: list.splits)
  have "s = takeWhile isDigit s @ 46 # rest"
    using r takeWhile_dropWhile_id[of isDigit s] by simp
  moreover have "\<forall>d\<in>set (takeWhile isDigit s). isDigit d"
    using set_takeWhileD[of _ isDigit s] by blast
  moreover have "takeWhile isDigit s \<noteq> []" using t by (simp add: testNumbered_def)
  ultimately show "\<exists>ds rest. ds \<noteq> [] \<and> (\<forall>d\<in>set ds. isDigit d) \<and> s = ds @ 46 # rest"
    by blast
next
  assume "\<exists>ds rest. ds \<noteq> [] \<and> (\<forall>d\<in>set ds. isDigit d) \<and> s = ds @ 46 # rest"
  then obtain ds rest where h: "ds \<noteq> []" "\<forall>d\<in>set ds. isDigit d" "s = ds @ 46 # rest"
    by blast
  have nd: "\<not> isDigit 46" by (simp add: isDigit_def)
  have "takeWhile isDigit s = ds" using h nd by (simp add: takeWhile_append2)
  moreover have "dropWhile isDigit s = 46 # rest" using h nd by (simp add: dropWhile_append2)
  ultimately show "testNumbered s" using h(1) by (simp add: testNumbered_def)
qed

lemma testBullet_iff:
  "testBullet s \<longleftrightarrow> (\<exists>c rest. s = c # rest \<and> (c = 45 \<or> c = 8226 \<or> c = 42))"
  by (cases s) (auto simp: testBullet_def)

lemma startsWith_hyphen: "startsWith l (js ''-'') \<longleftrightarrow> (\<exists>rest. l = 45 # rest)"
  by (cases l) (auto simp: js_def)

lemma split_tryXY: "splitLines tryXY = [js ''1. Try X'', js ''2. Try Y'']"
  by (simp add: tryXY_def js_def)

lemma trim_try: "trim (js ''1. Try X'') = js ''1. Try X''" "trim (js ''2. Try Y'') = js ''2. Try Y''"
  by (simp_all add: js_def trim_def isWhite_def)

lemma numbered_try: "testNumbered (js ''1. Try X'')" "testNumbered (js ''2. Try Y'')"
  by (simp_all add: js_def testNumbered_def isDigit_def)

lemma lines_tryXY: "suggestionLines tryXY = [js ''1. Try X'', js ''2. Try Y'']"
  by (simp add: suggestionLines_def split_tryXY trim_try numbered_try) (simp add: js_def)

lemma lines2_tryXY: "suggestionLines2 tryXY = [js ''1. Try X'', js ''2. Try Y'']"
  by (simp add: suggestionLines2_def split_tryXY trim_try) (simp add: js_def)

text \<open>
  Claim C4, as amended. Both popup scripts split the text at every newline. The first keeps,
  in order, the lines that are not blank and whose trimmed text starts with one or more
  digits and a period, or with one of \<open>-\<close>, the bullet and \<open>*\<close>, or that are more than 10
  characters long. The second keeps every line that is not blank and does not start with
  \<open>-\<close>. On \<open>1. Try X\<close>, newline, \<open>2. Try Y\<close> both yield these two lines, each with the
  digit and period prefix.
\<close>

theorem suggestionLines_spec:
  "suggestionLines text =
     filter (\<lambda>l. trim l \<noteq> [] \<and>
        ((\<exists>ds rest. ds \<noteq> [] \<and> (\<forall>d\<in>set ds. isDigit d) \<and> trim l = ds @ 46 # rest) \<or>
         (\<exists>c rest. trim l = c # rest \<and> (c = 45 \<or> c = 8226 \<or> c = 42)) \<or>
         length l > 10)) (splitLines text) \<and>
   suggestionLines2 text =
     filter (\<lambda>l. trim l \<noteq> [] \<and> \<not> (\<exists>rest. l = 45 # rest)) (splitLines text) \<and>
   joinLines (splitLines text) = text \<and> (\<forall>l\<in>set (splitLines text). 10 \<notin> set l) \<and>
   suggestionLines tryXY = [js ''1. Try X'', js ''2. Try Y''] \<and>
   suggestionLines2 tryXY = [js ''1. Try X'', js ''2. Try Y''] \<and>
   testNumbered (js ''1. Try X'') \<and> testNumbered (js ''2. Try Y'')"
proof -
  have a: "suggestionLines text =
     filter (\<lambda>l. trim l \<noteq> [] \<and>
        ((\<exists>ds rest. ds \<noteq> [] \<and> (\<forall>d\<in>set ds. isDigit d) \<and> trim l = ds @ 46 # rest) \<or>
         (\<exists>c rest. trim l = c # rest \<and> (c = 45 \<or> c = 8226 \<or> c = 42)) \<or>
         length l > 10)) (splitLines text)"
    unfolding suggestionLines_def Let_def filter_filter testNumbered_iff testBullet_iff
    by (rule filter_cong) auto
  have b: "suggestionLines2 text =
     filter (\<lambda>l. trim l \<noteq> [] \<and> \<not> (\<exists>rest. l = 45 # rest)) (splitLines text)"
    unfolding suggestionLines2_def startsWith_hyphen by simp
  show ?thesis
    using a b join_split splitLines_no_newline lines_tryXY lines2_tryXY numbered_try by blast
qed

theorem suggestionLines_spec_witness:
  "splitLines tryXY = [js ''1. Try X'', js ''2. Try Y''] \<and>
   10 \<notin> set (js ''1. Try X'') \<and> joinLines (splitLines tryXY) = tryXY"
  using suggestionLines_spec[of tryXY] split_tryXY by simp

lemma tryX_kept: "suggestionLines2 (js ''Try X'') = [js ''Try X'']"
  by (simp add: suggestionLines2_def js_def trim_def isWhite_def)

lemma tryX_plain:
  "\<not> testNumbered (js ''Try X'')" "\<not> testBullet (js ''Try X'')" "length (js ''Try X'') = 5"
  "trim (js ''Try X'') = js ''Try X''"
  by (simp_all add: js_def testNumbered_def testBullet_def isDigit_def trim_def isWhite_def)

text \<open>
  Claim C4 as stated fails on the second popup script: the line \<open>Try X\<close> is kept although
  it starts with neither a digit and a period nor a bullet and is 5 characters long. The
  first popup script drops it.
\<close>

theorem short_line_kept:
  "suggestionLines2 (js ''Try X'') = [js ''Try X''] \<and>
   \<not> testNumbered (trim (js ''Try X'')) \<and> \<not> testBullet (trim (js ''Try X'')) \<and>
   \<not> testNumbered (js ''Try X'') \<and> \<not> testBullet (js ''Try X'') \<and>
   \<not> length (js ''Try X'') > 10 \<and>
   suggestionLines (js ''Try X'') = []"
proof -
  have "splitLines (js ''Try X'') = [js ''Try X'']" by (simp add: js_def)
  then have "suggestionLines (js ''Try X'') = []"
    by (simp add: suggestionLines_def tryX_plain)
  then show ?thesis by (simp add: tryX_kept tryX_plain)
qed

section \<open>The history list\<close>

lemma reachesLog_iff:
  "reachesLog w pd \<longleftrightarrow>
     (\<exists>n. active_tab w = Some (Some n) \<and> n \<noteq> 0) \<and>
     extract_reply w = Inr (Some pd) \<and> title pd \<noteq> []"
  by (auto simp: reachesLog_def split: option.splits)

lemma logHistory_history:
  "logHistory w pd st = (r, st') \<Longrightarrow>
   history st' = (if isTrackingEnabled st then take 50 (entryOf pd (now w) # history st) else history st)
   \<and> isTrackingEnabled st' = isTrackingEnabled st"
  by (auto simp: logHistory_def Let_def split: option.splits if_splits)

lemma ui_history [simp]:
  "history (renderProduct d st) = history st"
  "history (renderSuggestions x st) = history st"
  "history (renderSuggestions2 x st) = history st"
  "history (showLoading b st) = history st"
  "history (showMessage m st) = history st"
  "history (showError m st) = history st"
  "history (announceToScreenReader m st) = history st"
  by (simp_all add: renderProduct_def renderSuggestions_def renderSuggestions2_def showLoading_def
      showMessage_def showError_def announceToScreenReader_def)

lemma ui_tracking [simp]:
  "isTrackingEnabled (renderProduct d st) = isTrackingEnabled st"
  "isTrackingEnabled (renderSuggestions x st) = isTrackingEnabled st"
  "isTrackingEnabled (renderSuggestions2 x st) = isTrackingEnabled st"
  "isTrackingEnabled (showLoading b st) = isTrackingEnabled st"
  "isTrackingEnabled (showMessage m st) = isTrackingEnabled st"
  "isTrackingEnabled (showError m st) = isTrackingEnabled st"
  "isTrackingEnabled (announceToScreenReader m st) = isTrackingEnabled st"
  by (simp_all add: renderProduct_def renderSuggestions_def renderSuggestions2_def showLoading_def
      showMessage_def showError_def announceToScreenReader_def)

lemma analyze_catch_history [simp]:
  "history (analyze_catch w e st) = history st"
  "isTrackingEnabled (analyze_catch w e st) = isTrackingEnabled st"
  "history (analyze_catch2 w e st) = history st"
  "isTrackingEnabled (analyze_catch2 w e st) = isTrackingEnabled st"
  by (simp_all add: analyze_catch_def analyze_catch2_def Let_def)

lemma analyze_try_history:
  "analyze_try w st = (r, st') \<Longrightarrow>
   isTrackingEnabled st' = isTrackingEnabled st \<and>
   (history st' = history st \<or> (\<exists>e. history st' = take 50 (e # history st)))"
  unfolding analyze_try_def
  by (auto split: if_splits option.splits sum.splits prod.splits dest!: logHistory_history)

lemma analyze_try2_history:
  "analyze_try2 w st = (r, st') \<Longrightarrow>
   isTrackingEnabled st' = isTrackingEnabled st \<and>
   (history st' = history st \<or> (\<exists>e. history st' = take 50 (e # history st)))"
  unfolding analyze_try2_def
  by (auto split: if_splits option.splits sum.splits prod.splits dest!: logHistory_history)

lemma analyze_try_logged:
  assumes "isTrackingEnabled st" "reachesLog w pd"
    "GEMINI_API_KEY w \<noteq> []" "startsWith (GEMINI_API_KEY w) (js ''AIza'')"
    "analyze_try w st = (r, st')"
  shows "history st' = take 50 (entryOf pd (now w) # history st)"
  using assms unfolding analyze_try_def reachesLog_iff
  by (auto split: if_splits option.splits sum.splits prod.splits dest!: logHistory_history)

lemma apiKey_ok: "apiKey \<noteq> [] \<and> startsWith apiKey (js ''AIza'')"
  by (simp add: apiKey_def js_def)

lemma analyze_try2_logged:
  assumes "isTrackingEnabled st" "reachesLog w pd" "analyze_try2 w st = (r, st')"
  shows "history st' = take 50 (entryOf pd (now w) # history st)"
  using assms apiKey_ok unfolding analyze_try2_def reachesLog_iff
  by (auto split: if_splits option.splits sum.splits prod.splits dest!: logHistory_history)

lemma analyzeProduct_step:
  "isTrackingEnabled (analyzeProduct w st) = isTrackingEnabled st \<and>
   (history (analyzeProduct w st) = history st \<or>
    (\<exists>e. history (analyzeProduct w st) = take 50 (e # history st)))"
proof -
  define st0 where "st0 = announceToScreenReader (js ''Analyzing product'')
              ((showLoading True (st\<lparr>currentState := Loading\<rparr>))\<lparr>outputDiv := []\<rparr>)"
  have h0: "history st0 = history st" "isTrackingEnabled st0 = isTrackingEnabled st"
    by (simp_all add: st0_def showLoading_def announceToScreenReader_def)
  obtain r st1 where t: "analyze_try w st0 = (r, st1)" by (cases "analyze_try w st0")
  have a: "analyzeProduct w st = (case r of None \<Rightarrow> st1 | Some err \<Rightarrow> analyze_catch w err st1)"
    using t by (simp add: analyzeProduct_def st0_def Let_def split: option.splits)
  from analyze_try_history[OF t] h0 a show ?thesis
    by (cases r) auto
qed

lemma analyzeProduct2_step:
  "isTrackingEnabled (analyzeProduct2 w st) = isTrackingEnabled st \<and>
   (history (analyzeProduct2 w st) = history st \<or>
    (\<exists>e. history (analyzeProduct2 w st) = take 50 (e # history st)))"
proof -
  define st0 where "st0 = (showLoading True st)\<lparr>outputDiv := []\<rparr>"
  have h0: "history st0 = history st" "isTrackingEnabled st0 = isTrackingEnabled st"
    by (simp_all add: st0_def showLoading_def)
  obtain r st1 where t: "analyze_try2 w st0 = (r, st1)" by (cases "analyze_try2 w st0")
  have a: "analyzeProduct2 w st = (case r of None \<Rightarrow> st1 | Some err \<Rightarrow> analyze_catch2 w err st1)"
    using t by (simp add: analyzeProduct2_def st0_def Let_def split: option.splits)
  from analyze_try2_history[OF t] h0 a show ?thesis
    by (cases r) auto
qed

lemma analyzeProduct_logged:
  assumes "isTrackingEnabled st" "reachesLog w pd"
    "GEMINI_API_KEY w \<noteq> []" "startsWith (GEMINI_API_KEY w) (js ''AIza'')"
  shows "history (analyzeProduct w st) = take 50 (entryOf pd (now w) # history st)"
proof -
  define st0 where "st0 = announceToScreenReader (js ''Analyzing product'')
              ((showLoading True (st\<lparr>currentState := Loading\<rparr>))\<lparr>outputDiv := []\<rparr>)"
  have h0: "history st0 = history st" "isTrackingEnabled st0"
    using assms(1) by (simp_all add: st0_def showLoading_def announceToScreenReader_def)
  obtain r st1 where t: "analyze_try w st0 = (r, st1)" by (cases "analyze_try w st0")
  have a: "analyzeProduct w st = (case r of None \<Rightarrow> st1 | Some err \<Rightarrow> analyze_catch w err st1)"
    using t by (simp add: analyzeProduct_def st0_def Let_def split: option.splits)
  from analyze_try_logged[OF h0(2) assms(2,3,4) t] h0 a show ?thesis
    by (cases r) auto
qed

lemma analyzeProduct2_logged:
  assumes "isTrackingEnabled st" "reachesLog w pd"
  shows "history (analyzeProduct2 w st) = take 50 (entryOf pd (now w) # history st)"
proof -
  define st0 where "st0 = (showLoading True st)\<lparr>outputDiv := []\<rparr>"
  have h0: "history st0 = history st" "isTrackingEnabled st0"
    using assms(1) by (simp_all add: st0_def showLoading_def)
  obtain r st1 where t: "analyze_try2 w st0 = (r, st1)" by (cases "analyze_try2 w st0")
  have a: "analyzeProduct2 w st = (case r of None \<Rightarrow> st1 | Some err \<Rightarrow> analyze_catch2 w err st1)"
    using t by (simp add: analyzeProduct2_def st0_def Let_def split: option.splits)
  from analyze_try2_logged[OF h0(2) assms(2) t] h0 a show ?thesis
    by (cases r) auto
qed

lemma runs_capped: "length (history st) \<le> 50 \<Longrightarrow> length (history (runs ws st)) \<le> 50"
proof (induction ws arbitrary: st)
  case Nil
  then show ?case by simp
next
  case (Cons w ws)
  have "length (history (analyzeProduct w st)) \<le> 50"
    using analyzeProduct_step[of w st] Cons.prems by auto
  then show ?case using Cons.IH by simp
qed

lemma runs2_capped: "length (history st) \<le> 50 \<Longrightarrow> length (history (runs2 ws st)) \<le> 50"
proof (induction ws arbitrary: st)
  case Nil
  then show ?case by simp
next
  case (Cons w ws)
  have "length (history (analyzeProduct2 w st)) \<le> 50"
    using analyzeProduct2_step[of w st] Cons.prems by auto
  then show ?case using Cons.IH by simp
qed

lemma take_50_Cons: "take 50 (e # h) = e # take 49 h"
  by (simp add: take_Cons')

lemma base_reaches: "reachesLog baseWorld kettle"
  by (simp add: reachesLog_iff baseWorld_def kettle_def js_def)

lemma base_key: "GEMINI_API_KEY baseWorld \<noteq> [] \<and> startsWith (GEMINI_API_KEY baseWorld) (js ''AIza'')"
  by (simp add: baseWorld_def js_def)

text \<open>
  Claim C3. Along every sequence of analyze runs, of either popup script, a history of at
  most 50 entries stays at most 50 entries long. A run with tracking enabled that gets as
  far as the history step puts the new entry at the front and keeps the first 49 of the
  old entries behind it, so what is dropped comes from the back.
\<close>

theorem history_capped:
  "(length (history st) \<le> 50 \<longrightarrow>
      length (history (runs ws st)) \<le> 50 \<and> length (history (runs2 ws st)) \<le> 50) \<and>
   (isTrackingEnabled st \<and> reachesLog w pd \<longrightarrow>
      history (analyzeProduct2 w st) = entryOf pd (now w) # take 49 (history st) \<and>
      length (history (analyzeProduct2 w st)) \<le> 50 \<and>
      (GEMINI_API_KEY w \<noteq> [] \<and> startsWith (GEMINI_API_KEY w) (js ''AIza'') \<longrightarrow>
         history (analyzeProduct w st) = entryOf pd (now w) # take 49 (history st) \<and>
         length (history (analyzeProduct w st)) \<le> 50))"
  using runs_capped[of st ws] runs2_capped[of st ws] analyzeProduct_logged[of st w pd]
    analyzeProduct2_logged[of st w pd]
  by (auto simp: take_50_Cons)

theorem history_capped_witness:
  "length (history fullPopup) = 50 \<and>
   length (history (runs [baseWorld, baseWorld] fullPopup)) \<le> 50 \<and>
   length (history (runs2 [baseWorld, baseWorld] fullPopup)) \<le> 50 \<and>
   history (analyzeProduct baseWorld fullPopup) =
     entryOf kettle 1700000000000 # replicate 49 (entryOf kettle 1) \<and>
   history (analyzeProduct2 baseWorld fullPopup) =
     entryOf kettle 1700000000000 # replicate 49 (entryOf kettle 1)"
proof -
  have l: "length (history fullPopup) = 50" by (simp add: fullPopup_def freshPopup_def)
  have t: "isTrackingEnabled fullPopup" by (simp add: fullPopup_def freshPopup_def)
  have h: "take 49 (history fullPopup) = replicate 49 (entryOf kettle 1)"
    by (simp add: fullPopup_def freshPopup_def)
  have n: "now baseWorld = 1700000000000" by (simp add: baseWorld_def)
  show ?thesis
    using history_capped[of fullPopup "[baseWorld, baseWorld]" baseWorld kettle]
      l t h n base_reaches base_key by simp
qed

section \<open>Trimming\<close>

lemma trim_prefix: "\<exists>rest. dropWhile isWhite s = trim s @ rest"
proof -
  have "rev (dropWhile isWhite s) =
        takeWhile isWhite (rev (dropWhile isWhite s)) @ dropWhile isWhite (rev (dropWhile isWhite s))"
    by simp
  then have "dropWhile isWhite s =
        rev (dropWhile isWhite (rev (dropWhile isWhite s))) @ rev (takeWhile isWhite (rev (dropWhile isWhite s)))"
    by (metis rev_append rev_rev_ident)
  then show ?thesis by (auto simp: trim_def)
qed

lemma trim_ends:
  assumes "trim s \<noteq> []"
  shows "\<not> isWhite (hd (trim s)) \<and> \<not> isWhite (last (trim s))"
proof -
  from trim_prefix obtain rest where r: "dropWhile isWhite s = trim s @ rest" by blast
  with assms have ne: "dropWhile isWhite s \<noteq> []" by auto
  have "hd (dropWhile isWhite s) = hd (trim s)" using r assms by simp
  moreover have "\<not> isWhite (hd (dropWhile isWhite s))" using ne by (rule hd_dropWhile)
  moreover have "dropWhile isWhite (rev (dropWhile isWhite s)) \<noteq> []"
    using assms by (simp add: trim_def)
  then have "\<not> isWhite (hd (dropWhile isWhite (rev (dropWhile isWhite s))))"
    by (rule hd_dropWhile)
  then have "\<not> isWhite (last (trim s))"
    using assms by (simp add: trim_def last_rev)
  ultimately show ?thesis by simp
qed

lemma dropWhile_keep: "xs \<noteq> [] \<Longrightarrow> \<not> P (hd xs) \<Longrightarrow> dropWhile P xs = xs"
  by (cases xs) auto

lemma trim_trim: "trim (trim s) = trim s"
proof (cases "trim s = []")
  case True
  have "trim [] = []" by (simp add: trim_def)
  with True show ?thesis by simp
next
  case False
  from trim_ends[OF False] have h: "\<not> isWhite (hd (trim s))" and l: "\<not> isWhite (last (trim s))"
    by simp_all
  have a: "dropWhile isWhite (trim s) = trim s"
    using False h by (rule dropWhile_keep)
  have "rev (trim s) \<noteq> []" using False by simp
  moreover have "\<not> isWhite (hd (rev (trim s)))" using False l by (simp add: hd_rev)
  ultimately have b: "dropWhile isWhite (rev (trim s)) = rev (trim s)"
    by (rule dropWhile_keep)
  show ?thesis
    unfolding trim_def[of "trim s"] a b by simp
qed

lemma trimVal_Inr: "trimVal v = Inr r \<Longrightarrow> \<exists>s. r = trim s"
  by (auto simp: trimVal_def split: jsval.splits)

section \<open>Outcomes of the suggestion service\<close>

lemma chain1_shape:
  "optProp (optIndex0 (optProp (optProp (optIndex0
      (optProp (candidateShape t) (js ''candidates''))) (js ''content'')) (js ''parts'')))
      (js ''text'') = JStr t"
  by (simp add: candidateShape_def optProp_def optIndex0_def getProp_def getIndex0_def nullish_def)

lemma chain2_shape:
  "readProp (candidateShape t) (js ''candidates'') =
     Inr (JArr [JObj [(js ''content'', JObj [(js ''parts'', JArr [JObj [(js ''text'', JStr t)]])])]])"
  "firstText2 (JArr [JObj [(js ''content'', JObj [(js ''parts'', JArr [JObj [(js ''text'', JStr t)]])])]])
     = Inr (JStr t)"
  by (simp_all add: candidateShape_def readProp_def firstText2_def readIndex0_def optProp_def
      getProp_def getIndex0_def nullish_def bindE_def)

lemma handleAnalyze_Inr: "fst (handleAnalyze w p) = Inr r \<Longrightarrow> \<exists>s. r = trim s"
  by (auto simp: handleAnalyze_def Let_def split: option.splits sum.splits if_splits
      dest: trimVal_Inr)

lemma callGeminiAPI_Inr: "fst (callGeminiAPI w p) = Inr r \<Longrightarrow> \<exists>s. r = trim s"
  by (auto simp: callGeminiAPI_def bindE_def split: sum.splits if_splits dest: trimVal_Inr)

section \<open>What the popup shows when the service fails\<close>

lemma ui_output [simp]:
  "outputDiv (renderProduct d st) = outputDiv st @ [ProductInfo d]"
  "outputDiv (renderSuggestions x st) = outputDiv st @ [SuggestionList (suggestionLines x)]"
  "outputDiv (renderSuggestions2 x st) = outputDiv st @ [SuggestionList (suggestionLines2 x)]"
  "outputDiv (showLoading b st) = outputDiv st"
  "outputDiv (showMessage m st) = [Message m]"
  "outputDiv (showError m st) = [ErrorMessage m]"
  "outputDiv (announceToScreenReader m st) = outputDiv st"
  by (simp_all add: renderProduct_def renderSuggestions_def renderSuggestions2_def showLoading_def
      showMessage_def showError_def announceToScreenReader_def)

lemma catch_output:
  "outputDiv (analyze_catch w e st) =
     (if includes_js (message e) (js ''API key'') \<or> includes_js (message e) (js ''API error'')
      then [Message demoNotice]
      else [ErrorMessage (js ''Analysis failed: '' @ message e)])"
  by (simp add: analyze_catch_def Let_def)

lemma catch2_output:
  "outputDiv (analyze_catch2 w e st) =
     (if includes_js (message e) (js ''Demo mode'') \<or> includes_js (message e) (js ''API error'')
      then outputDiv st @ [ProductInfo (demoProduct2 w), SuggestionList (suggestionLines2 demoSuggestions2)]
      else [ErrorMessage (js ''Analysis failed: '' @ message e)])"
  by (simp add: analyze_catch2_def Let_def)

lemma logHistory_output:
  "logHistory w pd st = (r, st') \<Longrightarrow> outputDiv st' = outputDiv st"
  by (auto simp: logHistory_def Let_def split: option.splits if_splits)

lemma logHistory_ok:
  "isTrackingEnabled st \<longrightarrow> storage_fault w = None \<Longrightarrow> \<exists>st'. logHistory w pd st = (None, st')"
  by (auto simp: logHistory_def Let_def split: option.splits)

lemma analyze_try_service_error:
  assumes "reachesBackground w pd st" "fst (handleAnalyze w pd) = Inl (JsError m)" "m \<noteq> []"
  shows "\<exists>st1. analyze_try w st = (Some (JsError m), st1) \<and> outputDiv st1 = outputDiv st"
proof -
  from assms(1) have s: "isTrackingEnabled st \<longrightarrow> storage_fault w = None"
    by (simp add: reachesBackground_def reachesService_def)
  from logHistory_ok[OF s] obtain st1 where l: "logHistory w pd st = (None, st1)" by blast
  have c: "callBackgroundAI w pd = Inl (JsError m)"
    using assms by (simp add: callBackgroundAI_def reachesBackground_def onAnalyzeWithAI_def)
  have "analyze_try w st = (Some (JsError m), st1)"
    using assms(1) l c
    by (auto simp: analyze_try_def reachesBackground_def reachesService_def reachesLog_iff)
  with logHistory_output[OF l] show ?thesis by simp
qed

lemma analyze_try2_service_error:
  assumes "reachesService w pd st" "fst (callGeminiAPI w pd) = Inl e"
  shows "\<exists>st1. analyze_try2 w st = (Some e, st1) \<and> outputDiv st1 = outputDiv st"
proof -
  from assms(1) have s: "isTrackingEnabled st \<longrightarrow> storage_fault w = None"
    by (simp add: reachesService_def)
  from logHistory_ok[OF s] obtain st1 where l: "logHistory w pd st = (None, st1)" by blast
  have "analyze_try2 w st = (Some e, st1)"
    using assms l apiKey_ok
    by (auto simp: analyze_try2_def reachesService_def reachesLog_iff)
  with logHistory_output[OF l] show ?thesis by simp
qed

lemma analyzeProduct_service_error:
  assumes "reachesBackground w pd st" "fst (handleAnalyze w pd) = Inl (JsError m)" "m \<noteq> []"
  shows "outputDiv (analyzeProduct w st) =
     (if includes_js m (js ''API key'') \<or> includes_js m (js ''API error'')
      then [Message demoNotice]
      else [ErrorMessage (js ''Analysis failed: '' @ m)])"
proof -
  define st0 where "st0 = announceToScreenReader (js ''Analyzing product'')
              ((showLoading True (st\<lparr>currentState := Loading\<rparr>))\<lparr>outputDiv := []\<rparr>)"
  have r: "reachesBackground w pd st0"
    using assms(1)
    by (simp add: reachesBackground_def reachesService_def st0_def showLoading_def
        announceToScreenReader_def)
  from analyze_try_service_error[OF r assms(2,3)] obtain st1 where
    t: "analyze_try w st0 = (Some (JsError m), st1)" by blast
  have "analyzeProduct w st = analyze_catch w (JsError m) st1"
    using t by (simp add: analyzeProduct_def st0_def Let_def)
  then show ?thesis by (simp add: catch_output)
qed

lemma analyzeProduct2_service_error:
  assumes "reachesService w pd st" "fst (callGeminiAPI w pd) = Inl e"
  shows "outputDiv (analyzeProduct2 w st) =
     (if includes_js (message e) (js ''Demo mode'') \<or> includes_js (message e) (js ''API error'')
      then [ProductInfo (demoProduct2 w), SuggestionList (suggestionLines2 demoSuggestions2)]
      else [ErrorMessage (js ''Analysis failed: '' @ message e)])"
proof -
  define st0 where "st0 = (showLoading True st)\<lparr>outputDiv := []\<rparr>"
  have r: "reachesService w pd st0"
    using assms(1) by (simp add: reachesService_def st0_def showLoading_def)
  have o: "outputDiv st0 = []" by (simp add: st0_def)
  from analyze_try2_service_error[OF r assms(2)] obtain st1 where
    t: "analyze_try2 w st0 = (Some e, st1)" "outputDiv st1 = outputDiv st0" by blast
  have "analyzeProduct2 w st = analyze_catch2 w e st1"
    using t by (simp add: analyzeProduct2_def st0_def Let_def)
  then show ?thesis using t(2) o by (simp add: catch2_output)
qed

lemma notSignedIn_plain:
  "notSignedIn \<noteq> []" "\<not> includes_js notSignedIn (js ''API key'')"
  "\<not> includes_js notSignedIn (js ''API error'')"
  by (simp_all add: notSignedIn_def js_def)

lemma unexpected1_plain:
  "unexpected1 \<noteq> []" "\<not> includes_js unexpected1 (js ''API key'')"
  "\<not> includes_js unexpected1 (js ''API error'')"
  by (simp_all add: unexpected1_def js_def)

lemma unexpected2_plain:
  "\<not> includes_js unexpected2 (js ''Demo mode'')"
  "\<not> includes_js unexpected2 (js ''API error'')"
  by (simp_all add: unexpected2_def js_def)

lemma apiError1_marked: "apiError1 n txt \<noteq> [] \<and> includes_js (apiError1 n txt) (js ''API error'')"
  by (simp add: apiError1_def js_def)

lemma apiError2_marked: "includes_js (apiError2 n txt) (js ''API error'')"
  by (simp add: apiError2_def js_def)

lemma demo2_lines:
  "suggestionLines2 demoSuggestions2 =
     [js ''Demo Suggestion 1: Cheaper alt on eBay for $15 (better reviews).'',
      js ''Demo Suggestion 2: Similar on Walmart, save 20% with bundle.'']"
  by (simp add: suggestionLines2_def demoSuggestions2_def js_def trim_def isWhite_def)

section \<open>The service and the popup on the example runs\<close>

lemma base_token: "getTokenSilent baseWorld = Some (js ''tok'')"
  by (simp add: getTokenSilent_def baseWorld_def truthyS_def js_def)

lemma noAuth_token: "getTokenSilent noAuthWorld = None"
  by (simp add: getTokenSilent_def noAuthWorld_def baseWorld_def truthyS_def)

lemma world_tokens:
  "getTokenSilent failWorld = Some (js ''tok'')" "getTokenSilent emptyTextWorld = Some (js ''tok'')"
  by (simp_all add: getTokenSilent_def failWorld_def emptyTextWorld_def baseWorld_def truthyS_def js_def)

lemma world_fetch:
  "fetch baseWorld req = Inr (okResponse (js '' 1. Try X ''))"
  "fetch emptyTextWorld req = Inr (okResponse [])"
  "fetch failWorld req = Inr failResponse"
  by (simp_all add: baseWorld_def emptyTextWorld_def failWorld_def)

lemma response_facts:
  "ok (okResponse t)" "body_json (okResponse t) = Inr (candidateShape t)"
  "\<not> ok failResponse" "status failResponse = 500" "body_text failResponse = js ''boom''"
  by (simp_all add: ok_def okResponse_def failResponse_def)

lemma trim_tryX: "trim (js '' 1. Try X '') = js ''1. Try X''" "js '' 1. Try X '' \<noteq> []"
  by (simp_all add: trim_def js_def isWhite_def)

lemma handleAnalyze_network_error:
  "getTokenSilent w = Some tok \<Longrightarrow> fetch w (request1 tok p) = Inr resp \<Longrightarrow> \<not> ok resp \<Longrightarrow>
   fst (handleAnalyze w p) = Inl (JsError (apiError1 (status resp) (body_text resp)))"
  by (simp add: handleAnalyze_def)

lemma callGeminiAPI_network_error:
  "fetch w (request2 p) = Inr resp \<Longrightarrow> \<not> ok resp \<Longrightarrow>
   fst (callGeminiAPI w p) = Inl (JsError (apiError2 (status resp) (body_text resp)))"
  by (simp add: callGeminiAPI_def)

lemma world_reaches:
  "reachesBackground noAuthWorld kettle freshPopup"
  "reachesBackground emptyTextWorld kettle freshPopup"
  "reachesBackground failWorld kettle freshPopup"
  "reachesService emptyTextWorld kettle freshPopup"
  "reachesService failWorld kettle freshPopup"
  by (simp_all add: reachesBackground_def reachesService_def reachesLog_iff noAuthWorld_def
      emptyTextWorld_def failWorld_def baseWorld_def freshPopup_def kettle_def js_def)

lemma showNat_500: "showNat 500 = js ''500''"
  by (simp add: showNat.simps[of 500] showNat.simps[of 50] showNat.simps[of 5] js_def)

lemma apiError1_500: "apiError1 500 (js ''boom'') = js ''API error 500: boom''"
  by (simp add: apiError1_def showNat_500) (simp add: js_def)

text \<open>
  On every answer outside 200-299 the first popup script ends with the demo notice alone:
  \<open>showMessage\<close> replaces the demo product and suggestions rendered just before it.
\<close>

lemma analyzeProduct_network_error_output:
  assumes "reachesBackground w pd st" "getTokenSilent w = Some tok"
    "fetch w (request1 tok pd) = Inr resp" "\<not> ok resp"
  shows "outputDiv (analyzeProduct w st) = [Message demoNotice]"
  using analyzeProduct_service_error[OF assms(1) handleAnalyze_network_error[OF assms(2,3,4)]]
    apiError1_marked by simp

lemma rich_fetch:
  "fetch richEmptyWorld req = Inr (richResponse [])"
  "fetch richWorld req = Inr (richResponse (js '' 1. Try X ''))"
  "getTokenSilent richEmptyWorld = Some (js ''tok'')"
  "getTokenSilent richWorld = Some (js ''tok'')"
  by (simp_all add: richEmptyWorld_def richWorld_def baseWorld_def getTokenSilent_def truthyS_def
      js_def)

lemma rich_response: "ok (richResponse t)" "body_json (richResponse t) = Inr (JObj (richDoc t))"
  by (simp_all add: richResponse_def ok_def)

lemma rich_members:
  "map_of (richDoc t) (js ''candidates'') =
     Some (JArr (JObj (richCandidate t) # [JObj (richCandidate (js ''second''))]))"
  "map_of (richCandidate t) (js ''content'') = Some (JObj (richContent t))"
  "map_of (richContent t) (js ''parts'') =
     Some (JArr (JObj (richPart t) # [JObj (richPart (js ''more''))]))"
  "map_of (richPart t) (js ''text'') = Some (JStr t)"
  by (simp_all add: richDoc_def richCandidate_def richContent_def richPart_def js_def)

text \<open>
  Claim C10. When the endpoint answers with success and a document in which the first
  candidate's content has a first part with a text, whatever else the document holds,
  \<open>handleAnalyze\<close> and \<open>callGeminiAPI\<close> fail with their unexpected-response error if that
  text is empty, and return the trimmed text otherwise. Whatever
  they return is the trimming of some text: trimming it again changes nothing, and it
  neither starts nor ends with white space.
\<close>

theorem handleAnalyze_empty_text:
  "(getTokenSilent w = Some tok \<and> fetch w (request1 tok p) = Inr resp \<and> ok resp \<and>
      body_json resp = Inr (JObj doc) \<and>
      map_of doc (js ''candidates'') = Some (JArr (JObj cand # cands)) \<and>
      map_of cand (js ''content'') = Some (JObj cont) \<and>
      map_of cont (js ''parts'') = Some (JArr (JObj part # parts)) \<and>
      map_of part (js ''text'') = Some (JStr t) \<longrightarrow>
      fst (handleAnalyze w p) = (if t = [] then Inl (JsError unexpected1) else Inr (trim t))) \<and>
   (fetch w (request2 p) = Inr resp \<and> ok resp \<and>
      body_json resp = Inr (JObj doc) \<and>
      map_of doc (js ''candidates'') = Some (JArr (JObj cand # cands)) \<and>
      map_of cand (js ''content'') = Some (JObj cont) \<and>
      map_of cont (js ''parts'') = Some (JArr (JObj part # parts)) \<and>
      map_of part (js ''text'') = Some (JStr t) \<longrightarrow>
      fst (callGeminiAPI w p) = (if t = [] then Inl (JsError unexpected2) else Inr (trim t))) \<and>
   (fst (handleAnalyze w p) = Inr r \<or> fst (callGeminiAPI w p) = Inr r \<longrightarrow>
      (\<exists>s. r = trim s) \<and> trim r = r \<and>
      (r \<noteq> [] \<longrightarrow> \<not> isWhite (hd r) \<and> \<not> isWhite (last r)))"
proof -
  have a: "fst (handleAnalyze w p) = (if t = [] then Inl (JsError unexpected1) else Inr (trim t))"
    if "getTokenSilent w = Some tok \<and> fetch w (request1 tok p) = Inr resp \<and> ok resp \<and>
      body_json resp = Inr (JObj doc) \<and>
      map_of doc (js ''candidates'') = Some (JArr (JObj cand # cands)) \<and>
      map_of cand (js ''content'') = Some (JObj cont) \<and>
      map_of cont (js ''parts'') = Some (JArr (JObj part # parts)) \<and>
      map_of part (js ''text'') = Some (JStr t)"
    using that
    by (simp add: handleAnalyze_def optProp_def optIndex0_def getProp_def getIndex0_def
        nullish_def truthy_def trimVal_def)
  have b: "fst (callGeminiAPI w p) = (if t = [] then Inl (JsError unexpected2) else Inr (trim t))"
    if "fetch w (request2 p) = Inr resp \<and> ok resp \<and>
      body_json resp = Inr (JObj doc) \<and>
      map_of doc (js ''candidates'') = Some (JArr (JObj cand # cands)) \<and>
      map_of cand (js ''content'') = Some (JObj cont) \<and>
      map_of cont (js ''parts'') = Some (JArr (JObj part # parts)) \<and>
      map_of part (js ''text'') = Some (JStr t)"
    using that
    by (simp add: callGeminiAPI_def readProp_def firstText2_def readIndex0_def optProp_def
        getProp_def getIndex0_def nullish_def truthy_def trimVal_def bindE_def Let_def)
  have c: "(\<exists>s. r = trim s) \<and> trim r = r \<and>
      (r \<noteq> [] \<longrightarrow> \<not> isWhite (hd r) \<and> \<not> isWhite (last r))"
    if h: "fst (handleAnalyze w p) = Inr r \<or> fst (callGeminiAPI w p) = Inr r"
  proof -
    from h obtain s where s: "r = trim s" using handleAnalyze_Inr callGeminiAPI_Inr by blast
    then show ?thesis using trim_trim[of s] trim_ends[of s] by auto
  qed
  from a b c show ?thesis by blast
qed

theorem handleAnalyze_empty_text_witness:
  "fst (handleAnalyze richEmptyWorld kettle) = Inl (JsError unexpected1) \<and>
   fst (callGeminiAPI richEmptyWorld kettle) = Inl (JsError unexpected2) \<and>
   fst (handleAnalyze richWorld kettle) = Inr (js ''1. Try X'') \<and>
   fst (callGeminiAPI richWorld kettle) = Inr (js ''1. Try X'') \<and>
   trim (js ''1. Try X'') = js ''1. Try X''"
proof -
  note inst = handleAnalyze_empty_text[where tok = "js ''tok''" and p = kettle
      and cands = "[JObj (richCandidate (js ''second''))]"
      and parts = "[JObj (richPart (js ''more''))]"]
  have e: "fst (handleAnalyze richEmptyWorld kettle) = Inl (JsError unexpected1) \<and>
           fst (callGeminiAPI richEmptyWorld kettle) = Inl (JsError unexpected2)"
    using inst[where w = richEmptyWorld and resp = "richResponse []" and doc = "richDoc []"
        and cand = "richCandidate []" and cont = "richContent []" and part = "richPart []"
        and t = "[]"]
      rich_fetch rich_response rich_members
    by simp
  have f: "fst (handleAnalyze richWorld kettle) = Inr (js ''1. Try X'') \<and>
           fst (callGeminiAPI richWorld kettle) = Inr (js ''1. Try X'') \<and>
           trim (js ''1. Try X'') = js ''1. Try X''"
    using inst[where w = richWorld and resp = "richResponse (js '' 1. Try X '')"
        and doc = "richDoc (js '' 1. Try X '')" and cand = "richCandidate (js '' 1. Try X '')"
        and cont = "richContent (js '' 1. Try X '')" and part = "richPart (js '' 1. Try X '')"
        and t = "js '' 1. Try X ''" and r = "js ''1. Try X''"]
      rich_fetch rich_response rich_members trim_tryX
    by simp
  from e f show ?thesis by simp
qed

text \<open>
  Claim C6. When the silent token lookup reports an error, no token or an empty token,
  \<open>getTokenSilent\<close> yields nothing; then \<open>handleAnalyze\<close> fails with the sign-in error and
  has issued no request. A request is issued only with a token, and there is one at most.
\<close>

theorem handleAnalyze_auth_required:
  "(auth_lastError w \<or> auth_token w = None \<or> auth_token w = Some [] \<longrightarrow>
      getTokenSilent w = None) \<and>
   (getTokenSilent w = None \<longrightarrow> handleAnalyze w p = (Inl (JsError notSignedIn), [])) \<and>
   (snd (handleAnalyze w p) \<noteq> [] \<longrightarrow>
      (\<exists>tok. getTokenSilent w = Some tok \<and> tok \<noteq> [] \<and> snd (handleAnalyze w p) = [request1 tok p]))"
  by (auto simp: handleAnalyze_def getTokenSilent_def truthyS_def Let_def
      split: option.splits sum.splits if_splits)


lemma base_requests: "snd (handleAnalyze baseWorld kettle) = [request1 (js ''tok'') kettle]"
  by (simp add: handleAnalyze_def base_token world_fetch response_facts Let_def)

theorem handleAnalyze_auth_required_witness:
  "auth_token noAuthWorld = None \<and> getTokenSilent noAuthWorld = None \<and>
   handleAnalyze noAuthWorld kettle = (Inl (JsError notSignedIn), []) \<and>
   snd (handleAnalyze baseWorld kettle) \<noteq> [] \<and> getTokenSilent baseWorld \<noteq> None"
proof -
  have a: "auth_token noAuthWorld = None" by (simp add: noAuthWorld_def)
  have b: "snd (handleAnalyze baseWorld kettle) \<noteq> []" by (simp add: base_requests)
  show ?thesis
    using handleAnalyze_auth_required[of noAuthWorld kettle]
      handleAnalyze_auth_required[of baseWorld kettle] a b by auto
qed

text \<open>
  Claim C7, as amended. When the service fails for want of a token or with an unexpected
  response, the popup shows the error message \<open>Analysis failed:\<close> followed by the reason,
  and nothing else; this holds for both popup scripts. When the endpoint answers outside
  200-299, the second popup script shows the synthetic product \<open>Demo Product\<close> and the
  two demo suggestions.
\<close>

theorem service_failure_display:
  "(reachesBackground w pd st \<and> getTokenSilent w = None \<longrightarrow>
      outputDiv (analyzeProduct w st) = [ErrorMessage (js ''Analysis failed: '' @ notSignedIn)]) \<and>
   (reachesBackground w pd st \<and> fst (handleAnalyze w pd) = Inl (JsError unexpected1) \<longrightarrow>
      outputDiv (analyzeProduct w st) = [ErrorMessage (js ''Analysis failed: '' @ unexpected1)]) \<and>
   (reachesService w pd st \<and> fst (callGeminiAPI w pd) = Inl (JsError unexpected2) \<longrightarrow>
      outputDiv (analyzeProduct2 w st) = [ErrorMessage (js ''Analysis failed: '' @ unexpected2)]) \<and>
   (reachesService w pd st \<and> fetch w (request2 pd) = Inr resp \<and> \<not> ok resp \<longrightarrow>
      fst (callGeminiAPI w pd) = Inl (JsError (apiError2 (status resp) (body_text resp))) \<and>
      outputDiv (analyzeProduct2 w st) =
        [ProductInfo (demoProduct2 w),
         SuggestionList
           [js ''Demo Suggestion 1: Cheaper alt on eBay for $15 (better reviews).'',
            js ''Demo Suggestion 2: Similar on Walmart, save 20% with bundle.'']])"
proof -
  have a: "outputDiv (analyzeProduct w st) = [ErrorMessage (js ''Analysis failed: '' @ notSignedIn)]"
    if "reachesBackground w pd st \<and> getTokenSilent w = None"
  proof -
    from that have "fst (handleAnalyze w pd) = Inl (JsError notSignedIn)"
      by (simp add: handleAnalyze_def)
    with that show ?thesis
      using analyzeProduct_service_error[of w pd st notSignedIn] notSignedIn_plain by simp
  qed
  have b: "outputDiv (analyzeProduct w st) = [ErrorMessage (js ''Analysis failed: '' @ unexpected1)]"
    if "reachesBackground w pd st \<and> fst (handleAnalyze w pd) = Inl (JsError unexpected1)"
    using that analyzeProduct_service_error[of w pd st unexpected1] unexpected1_plain by simp
  have c: "outputDiv (analyzeProduct2 w st) = [ErrorMessage (js ''Analysis failed: '' @ unexpected2)]"
    if "reachesService w pd st \<and> fst (callGeminiAPI w pd) = Inl (JsError unexpected2)"
    using that analyzeProduct2_service_error[of w pd st "JsError unexpected2"] unexpected2_plain
    by simp
  have d: "fst (callGeminiAPI w pd) = Inl (JsError (apiError2 (status resp) (body_text resp))) \<and>
      outputDiv (analyzeProduct2 w st) =
        [ProductInfo (demoProduct2 w),
         SuggestionList
           [js ''Demo Suggestion 1: Cheaper alt on eBay for $15 (better reviews).'',
            js ''Demo Suggestion 2: Similar on Walmart, save 20% with bundle.'']]"
    if h: "reachesService w pd st \<and> fetch w (request2 pd) = Inr resp \<and> \<not> ok resp"
  proof -
    from h have e: "fst (callGeminiAPI w pd) = Inl (JsError (apiError2 (status resp) (body_text resp)))"
      by (simp add: callGeminiAPI_network_error)
    with h show ?thesis
      using analyzeProduct2_service_error[of w pd st "JsError (apiError2 (status resp) (body_text resp))"]
        apiError2_marked demo2_lines by simp
  qed
  from a b c d show ?thesis by blast
qed

theorem service_failure_display_witness:
  "outputDiv (analyzeProduct noAuthWorld freshPopup) =
     [ErrorMessage (js ''Analysis failed: '' @ notSignedIn)] \<and>
   outputDiv (analyzeProduct emptyTextWorld freshPopup) =
     [ErrorMessage (js ''Analysis failed: '' @ unexpected1)] \<and>
   outputDiv (analyzeProduct2 emptyTextWorld freshPopup) =
     [ErrorMessage (js ''Analysis failed: '' @ unexpected2)] \<and>
   outputDiv (analyzeProduct2 failWorld freshPopup) =
     [ProductInfo (demoProduct2 failWorld),
      SuggestionList
        [js ''Demo Suggestion 1: Cheaper alt on eBay for $15 (better reviews).'',
         js ''Demo Suggestion 2: Similar on Walmart, save 20% with bundle.'']]"
proof -
  have m1: "fst (handleAnalyze emptyTextWorld kettle) = Inl (JsError unexpected1)"
    by (simp add: handleAnalyze_def world_tokens world_fetch response_facts chain1_shape truthy_def)
  have m2: "fst (callGeminiAPI emptyTextWorld kettle) = Inl (JsError unexpected2)"
    by (simp add: callGeminiAPI_def world_fetch response_facts chain2_shape bindE_def truthy_def)
  show ?thesis
    using service_failure_display[of noAuthWorld kettle freshPopup]
      service_failure_display[of emptyTextWorld kettle freshPopup]
      service_failure_display[of failWorld kettle freshPopup failResponse]
      world_reaches noAuth_token m1 m2 world_fetch response_facts
    by simp
qed

text \<open>
  Claim C7 as stated fails for a user who is not signed in: the service fails with the
  sign-in error and the first popup script shows that error only.
\<close>

theorem auth_failure_blocks:
  "fst (handleAnalyze noAuthWorld kettle) = Inl (JsError notSignedIn) \<and>
   outputDiv (analyzeProduct noAuthWorld freshPopup) =
     [ErrorMessage (js ''Analysis failed: '' @ notSignedIn)]"
proof -
  have a: "fst (handleAnalyze noAuthWorld kettle) = Inl (JsError notSignedIn)"
    by (simp add: handleAnalyze_def noAuth_token)
  show ?thesis
    using a analyzeProduct_service_error[OF world_reaches(1) a] notSignedIn_plain by simp
qed

text \<open>
  Claim C5 at an answer with status 500 and body \<open>boom\<close>: the service fails with an error
  that carries both, and the first popup script ends with the demo notice alone in its
  output, the demo product and suggestions it has just rendered being replaced by
  \<open>showMessage\<close>. The second popup script ends with the demo product and suggestions.
\<close>

theorem demo_content_overwritten:
  "fst (handleAnalyze failWorld kettle) = Inl (JsError (js ''API error 500: boom'')) \<and>
   outputDiv (analyzeProduct failWorld freshPopup) = [Message demoNotice] \<and>
   outputDiv (analyzeProduct2 failWorld freshPopup) =
     [ProductInfo (demoProduct2 failWorld), SuggestionList (suggestionLines2 demoSuggestions2)]"
proof -
  have a: "fst (handleAnalyze failWorld kettle) = Inl (JsError (apiError1 500 (js ''boom'')))"
    using handleAnalyze_network_error[of failWorld "js ''tok''" kettle failResponse]
      world_tokens world_fetch response_facts by simp
  have b: "outputDiv (analyzeProduct failWorld freshPopup) = [Message demoNotice]"
    using analyzeProduct_service_error[OF world_reaches(3) a] apiError1_marked by simp
  have c: "fst (callGeminiAPI failWorld kettle) = Inl (JsError (apiError2 500 (js ''boom'')))"
    using callGeminiAPI_network_error[of failWorld kettle failResponse]
      world_fetch response_facts by simp
  have d: "outputDiv (analyzeProduct2 failWorld freshPopup) =
     [ProductInfo (demoProduct2 failWorld), SuggestionList (suggestionLines2 demoSuggestions2)]"
    using analyzeProduct2_service_error[OF world_reaches(5) c] apiError2_marked by simp
  from a b d show ?thesis by (simp add: apiError1_500)
qed

end
